theory Spec2Isabelle
  imports Complex_Main "HOL-Library.Log_Nat"
begin

section \<open>JavaScript values\<close>

text \<open>
  The client is TypeScript; at run time its values are JavaScript values. A number is an
  IEEE 754 double: \<open>Finite x\<close> stands for the double whose value is the rational \<open>x\<close>, and
  there are the two infinities and \<open>NaN\<close> (the sign of zero is not kept: nothing in this
  program tells \<open>-0\<close> from \<open>0\<close>). The arithmetic rounds as the doubles do, see \<open>to_double\<close>.
  \<open>jsval\<close> covers \<open>undefined\<close>, \<open>null\<close>, booleans, numbers, strings and plain objects (a
  property list, first entry for a name wins), which is what \<open>handleApiError (error: any)\<close>
  can tell apart through its property reads.
\<close>

datatype jsnum = Finite rat | PosInf | NegInf | NaN

datatype jsval =
    JUndefined
  | JNull
  | JBool bool
  | JNum jsnum
  | JStr string
  | JObj "(string \<times> jsval) list"

text \<open>
  Rounding a rational to the nearest double, ties to the even mantissa. An integer of
  magnitude up to \<open>2^53 = 9007199254740992\<close> is a double and is returned as it is. Any other
  value \<open>x\<close> lies in a binade \<open>2^e \<le> |x| < 2^(e+1)\<close> (\<open>exponent\<close>; below \<open>2^-1022\<close> the
  subnormal spacing applies), where the doubles are the multiples of \<open>2^(e-52)\<close>; a
  rounded result of magnitude \<open>2^1024\<close> or more (binade 1024 or above) is an infinity.
\<close>

definition pow2 :: "int \<Rightarrow> rat" where
  "pow2 e = (if 0 \<le> e then 2 ^ nat e else 1 / 2 ^ nat (- e))"

definition exponent :: "rat \<Rightarrow> int" where
  "exponent x =
     (let (p, q) = quotient_of x; d = bitlen p - bitlen q
      in if pow2 d \<le> x then d else d - 1)"

definition round_half_even :: "rat \<Rightarrow> int" where
  "round_half_even q =
     (let f = \<lfloor>q\<rfloor>; d = q - of_int f
      in if d < 1 / 2 then f else if 1 / 2 < d then f + 1 else if even f then f else f + 1)"

definition to_double :: "rat \<Rightarrow> jsnum" where
  "to_double x =
     (if of_int \<lfloor>x\<rfloor> = x \<and> \<bar>x\<bar> \<le> 9007199254740992 then Finite x
      else let ulp = pow2 (max (exponent \<bar>x\<bar>) (- 1022) - 52);
               r = of_int (round_half_even (x / ulp)) * ulp
           in if 1024 \<le> exponent \<bar>r\<bar> then (if 0 < x then PosInf else NegInf) else Finite r)"

text \<open>\<open>a + b\<close>, \<open>a - b\<close>, \<open>a <= b\<close>, \<open>a >= b\<close> and \<open>Math.max(a, b)\<close> on numbers: \<open>NaN\<close>
  is contagious and compares false with everything.\<close>

fun num_neg :: "jsnum \<Rightarrow> jsnum" where
  "num_neg (Finite a) = Finite (- a)"
| "num_neg PosInf = NegInf"
| "num_neg NegInf = PosInf"
| "num_neg NaN = NaN"

fun num_plus :: "jsnum \<Rightarrow> jsnum \<Rightarrow> jsnum" where
  "num_plus (Finite a) (Finite b) = to_double (a + b)"
| "num_plus NaN _ = NaN"
| "num_plus _ NaN = NaN"
| "num_plus PosInf NegInf = NaN"
| "num_plus NegInf PosInf = NaN"
| "num_plus PosInf _ = PosInf"
| "num_plus _ PosInf = PosInf"
| "num_plus NegInf _ = NegInf"
| "num_plus _ NegInf = NegInf"

definition num_minus :: "jsnum \<Rightarrow> jsnum \<Rightarrow> jsnum" where
  "num_minus a b = num_plus a (num_neg b)"

fun num_le :: "jsnum \<Rightarrow> jsnum \<Rightarrow> bool" where
  "num_le NaN _ = False"
| "num_le _ NaN = False"
| "num_le (Finite a) (Finite b) = (a \<le> b)"
| "num_le NegInf _ = True"
| "num_le _ PosInf = True"
| "num_le _ _ = False"

definition num_ge :: "jsnum \<Rightarrow> jsnum \<Rightarrow> bool" where
  "num_ge a b = num_le b a"

fun Math_max :: "jsnum \<Rightarrow> jsnum \<Rightarrow> jsnum" where
  "Math_max NaN _ = NaN"
| "Math_max _ NaN = NaN"
| "Math_max a b = (if num_le a b then b else a)"

text \<open>Truthiness, as \<open>if (v)\<close> and \<open>v || w\<close> test it.\<close>

fun truthy :: "jsval \<Rightarrow> bool" where
  "truthy JUndefined = False"
| "truthy JNull = False"
| "truthy (JBool b) = b"
| "truthy (JNum (Finite n)) = (n \<noteq> 0)"
| "truthy (JNum PosInf) = True"
| "truthy (JNum NegInf) = True"
| "truthy (JNum NaN) = False"
| "truthy (JStr s) = (s \<noteq> [])"
| "truthy (JObj ps) = True"

datatype js_error = TypeError

text \<open>
  \<open>v.p\<close>: reading a property of \<open>undefined\<close> or \<open>null\<close> throws a TypeError; a primitive
  has none of the properties read in this program (\<open>response\<close>, \<open>data\<close>, \<open>error\<close>, \<open>code\<close>,
  \<open>message\<close>), so the read gives \<open>undefined\<close>. \<open>v?.p\<close> gives \<open>undefined\<close> instead of throwing.
\<close>

fun get_prop :: "jsval \<Rightarrow> string \<Rightarrow> js_error + jsval" where
  "get_prop JUndefined p = Inl TypeError"
| "get_prop JNull p = Inl TypeError"
| "get_prop (JObj ps) p = Inr (case map_of ps p of None \<Rightarrow> JUndefined | Some v \<Rightarrow> v)"
| "get_prop _ p = Inr JUndefined"

definition opt_chain :: "jsval \<Rightarrow> string \<Rightarrow> jsval" where
  "opt_chain v p = (case get_prop v p of Inl _ \<Rightarrow> JUndefined | Inr x \<Rightarrow> x)"

text \<open>\<open>+\<close> with a number on the left and a property value on the right: \<open>undefined\<close>
  converts to \<open>NaN\<close>, \<open>null\<close> to 0, a boolean to 0 or 1. (A string or object operand would
  concatenate; no number-typed state field can hold that, and the one use below never
  meets it, see \<open>creditsAwarded_undefined\<close>.)\<close>

fun plus_value :: "jsnum \<Rightarrow> jsval \<Rightarrow> jsnum" where
  "plus_value a (JNum b) = num_plus a b"
| "plus_value a JUndefined = NaN"
| "plus_value a JNull = a"
| "plus_value a (JBool b) = num_plus a (Finite (if b then 1 else 0))"
| "plus_value a _ = NaN"

section \<open>Wire types (types/api.ts)\<close>

record UserResponse =
  publicId :: string
  firstName :: "string option"
  lastName :: "string option"
  email :: "string option"
  photoCredits :: jsnum
  subscriptionTier :: string

record AuthResponse =
  user :: UserResponse
  sessionToken :: string

record PhotoTransformResponse =
  publicId :: string
  backgroundType :: string
  customPrompt :: "string option"
  status :: string
  resultImageUrl :: "string option"
  errorMessage :: "string option"
  creditsUsed :: jsnum

record CreditPackageResponse =
  packageId :: string
  name :: string
  description :: "string option"
  credits :: jsnum
  price :: string
  sortOrder :: jsnum

record CreditPurchaseResponse =
  publicId :: string
  creditsAdded :: jsnum
  amount :: jsnum
  status :: string
  receiptData :: string
  createdAt :: string

record CreditBalanceResponse =
  photoCredits :: jsnum
  subscriptionTier :: string
  subscriptionEndsAt :: "string option"

text \<open>The object a \<open>CreditPurchaseResponse\<close> is at run time: the six properties of the
  interface.\<close>

definition CreditPurchaseResponse_obj :: "CreditPurchaseResponse \<Rightarrow> jsval" where
  "CreditPurchaseResponse_obj p = JObj
     [(''publicId'', JStr (CreditPurchaseResponse.publicId p)),
      (''creditsAdded'', JNum (creditsAdded p)),
      (''amount'', JNum (amount p)),
      (''status'', JStr (CreditPurchaseResponse.status p)),
      (''receiptData'', JStr (receiptData p)),
      (''createdAt'', JStr (createdAt p))]"

text \<open>The envelope \<open>ApiResponse<T>\<close>. The HTTP core and the auth operations only ever look
  into an \<open>AuthResponse\<close> payload; any other payload is opaque to them.\<close>

datatype body_data = AuthData AuthResponse | OtherData

record api_error =
  message :: string
  code :: "string option"

record ApiResponse =
  success :: bool
  data :: "body_data option"
  error :: "api_error option"

section \<open>Error codes (API_ERROR_CODES)\<close>

definition AUTHENTICATION_REQUIRED :: string where "AUTHENTICATION_REQUIRED = ''AUTHENTICATION_REQUIRED''"
definition INVALID_TOKEN :: string where "INVALID_TOKEN = ''INVALID_TOKEN''"
definition INVALID_IMAGE :: string where "INVALID_IMAGE = ''INVALID_IMAGE''"
definition INSUFFICIENT_CREDITS :: string where "INSUFFICIENT_CREDITS = ''INSUFFICIENT_CREDITS''"
definition TRANSFORMATION_ERROR :: string where "TRANSFORMATION_ERROR = ''TRANSFORMATION_ERROR''"
definition RATE_LIMITED :: string where "RATE_LIMITED = ''RATE_LIMITED''"
definition SERVICE_UNAVAILABLE :: string where "SERVICE_UNAVAILABLE = ''SERVICE_UNAVAILABLE''"

section \<open>handleApiError (services/api/index.ts)\<close>

text \<open>The value of \<open>error.response?.data?.error\<close> once \<open>error.response\<close> has been read.\<close>

definition server_error :: "jsval \<Rightarrow> jsval" where
  "server_error response = opt_chain (opt_chain response ''data'') ''error''"

text \<open>The \<open>switch (code)\<close>: strict equality against the seven constants, in the source's
  order; \<open>None\<close> is the \<open>default\<close> branch.\<close>

definition switch_code :: "jsval \<Rightarrow> string option" where
  "switch_code c =
     (if c = JStr INSUFFICIENT_CREDITS then
        Some ''Insufficient credits. Please purchase more credits to continue.''
      else if c = JStr INVALID_IMAGE then
        Some ''Invalid image format. Please try with a different photo.''
      else if c = JStr TRANSFORMATION_ERROR then
        Some ''Photo transformation failed. Please try again.''
      else if c = JStr AUTHENTICATION_REQUIRED then
        Some ''Please sign in to continue.''
      else if c = JStr INVALID_TOKEN then
        Some ''Session expired. Please sign in again.''
      else if c = JStr RATE_LIMITED then
        Some ''Too many requests. Please try again later.''
      else if c = JStr SERVICE_UNAVAILABLE then
        Some ''Service temporarily unavailable. Please try again later.''
      else None)"

definition handleApiError :: "jsval \<Rightarrow> js_error + jsval" where
  "handleApiError err =
     (case get_prop err ''response'' of
        Inl e \<Rightarrow> Inl e
      | Inr response \<Rightarrow>
          if truthy (server_error response) then
            (let c = opt_chain (server_error response) ''code'';
                 m = opt_chain (server_error response) ''message''
             in case switch_code c of
                  Some fixed \<Rightarrow> Inr (JStr fixed)
                | None \<Rightarrow>
                    Inr (if truthy m then m
                         else JStr ''Something went wrong. Please try again.''))
          else if truthy (opt_chain err ''message'') then Inr (opt_chain err ''message'')
          else Inr (JStr ''Network error. Please check your connection.''))"

section \<open>HTTP client core (ApiService, services/api/index.ts)\<close>

record request =
  http_method :: string
  url :: string
  authorization :: "string option"
  body :: "string option"

record AxiosResponse =
  status :: nat
  data :: ApiResponse

text \<open>What one exchange with the backend ends in: a response with a status, no response
  at all, or the 30 second timeout.\<close>

datatype http_outcome = Respond AxiosResponse | NetworkError | Timeout

text \<open>Thrown values: an axios error (message, the request's config, the response when one
  came), a plain \<open>Error\<close> with its message, and a SecureStore failure.\<close>

datatype exn =
    AxiosError string request "AxiosResponse option"
  | Error string
  | SecureStoreError

definition digit :: "nat \<Rightarrow> char" where
  "digit d = ''0123456789'' ! d"

function show_nat :: "nat \<Rightarrow> string" where
  "show_nat n = (if n < 10 then [digit n] else show_nat (n div 10) @ [digit (n mod 10)])"
  by pat_completeness auto
termination
  by (relation "measure id") auto

declare show_nat.simps [simp del]

definition status_message :: "nat \<Rightarrow> string" where
  "status_message st = ''Request failed with status code '' @ show_nat st"

text \<open>
  The world outside the client: the SecureStore entry \<open>sessionToken\<close>, the number of
  SecureStore calls made so far and the requests put on the wire so far. The environment
  answers the \<open>k\<close>-th exchange (\<open>server\<close>) and decides whether the \<open>k\<close>-th SecureStore call
  throws (\<open>store_throws\<close>); a SecureStore call that throws leaves the entry as it was.
\<close>

record world =
  token :: "string option"
  store_calls :: nat
  sent :: "request list"

record env =
  server :: "nat \<Rightarrow> request \<Rightarrow> http_outcome"
  store_throws :: "nat \<Rightarrow> bool"

definition getStoredSessionToken :: "env \<Rightarrow> world \<Rightarrow> string option \<times> world" where
  "getStoredSessionToken ev w =
     (if store_throws ev (store_calls w) then None else token w,
      w\<lparr>store_calls := Suc (store_calls w)\<rparr>)"

definition storeSessionToken :: "env \<Rightarrow> string \<Rightarrow> world \<Rightarrow> (exn + unit) \<times> world" where
  "storeSessionToken ev t w =
     (if store_throws ev (store_calls w)
      then (Inl SecureStoreError, w\<lparr>store_calls := Suc (store_calls w)\<rparr>)
      else (Inr (), w\<lparr>token := Some t, store_calls := Suc (store_calls w)\<rparr>))"

definition clearSessionToken :: "env \<Rightarrow> world \<Rightarrow> world" where
  "clearSessionToken ev w =
     (if store_throws ev (store_calls w)
      then w\<lparr>store_calls := Suc (store_calls w)\<rparr>
      else w\<lparr>token := None, store_calls := Suc (store_calls w)\<rparr>)"

text \<open>\<open>if (token)\<close>: a stored token counts when it is a non-empty string.\<close>

definition usable :: "string option \<Rightarrow> bool" where
  "usable t = (case t of None \<Rightarrow> False | Some s \<Rightarrow> s \<noteq> [])"

text \<open>\<open>config.headers.Authorization = `Bearer ${token}`\<close>, done only for such a token.\<close>

definition attach :: "string option \<Rightarrow> request \<Rightarrow> request" where
  "attach t config =
     (case t of
        None \<Rightarrow> config
      | Some s \<Rightarrow> if s \<noteq> [] then config\<lparr>authorization := Some (''Bearer '' @ s)\<rparr> else config)"

definition refresh_request :: request where
  "refresh_request = \<lparr>http_method = ''POST'', url = ''/auth/refresh'', authorization = None, body = None\<rparr>"

definition apple_request :: "string \<Rightarrow> request" where
  "apple_request credential =
     \<lparr>http_method = ''POST'', url = ''/auth/apple'', authorization = None, body = Some credential\<rparr>"

text \<open>
  The tail shared by \<open>signInWithApple\<close> and \<open>refreshToken\<close>:
  \<open>if (response.data.success && response.data.data) { await this.storeSessionToken(
  response.data.data.sessionToken); return response.data.data; }
  throw new Error(response.data.error?.message || fallback)\<close>.
  A payload that is not an \<open>AuthResponse\<close> has no \<open>sessionToken\<close>; SecureStore refuses a
  value that is not a string, and \<open>storeSessionToken\<close> rethrows.
\<close>

definition unwrap_auth :: "env \<Rightarrow> string \<Rightarrow> AxiosResponse \<Rightarrow> world \<Rightarrow> (exn + AuthResponse) \<times> world" where
  "unwrap_auth ev fallback r w =
     (case (success (data r), ApiResponse.data (data r)) of
        (True, Some (AuthData a)) \<Rightarrow>
          (case storeSessionToken ev (sessionToken a) w of
             (Inl e, w1) \<Rightarrow> (Inl e, w1)
           | (Inr _, w1) \<Rightarrow> (Inr a, w1))
      | (True, Some OtherData) \<Rightarrow>
          (Inl SecureStoreError, w\<lparr>store_calls := Suc (store_calls w)\<rparr>)
      | _ \<Rightarrow>
          (Inl (Error (case error (data r) of
                         None \<Rightarrow> fallback
                       | Some ae \<Rightarrow> if message ae \<noteq> [] then message ae else fallback)), w))"

text \<open>
  \<open>client_request\<close> is \<open>this.client.request(config)\<close> (\<open>post\<close> and \<open>get\<close> are this with the
  method and url filled in): the request interceptor reads the stored token and attaches
  it, the exchange takes place, and a status outside 200..299, a network failure or a
  timeout is rejected with an axios error that carries the config as sent.
  \<open>response_rejected\<close> is the response interceptor's error handler: on a 401 it awaits
  \<open>this.refreshToken()\<close>, reads the stored token and returns
  \<open>this.client.request(originalRequest)\<close>; a throw of the refresh is caught
  (\<open>clearSessionToken\<close>, then \<open>throw refreshError\<close>); in every other case it rejects with the
  error it was given. An axios error always has its config, and the config its headers,
  so \<open>&& originalRequest\<close> and \<open>&& originalRequest.headers\<close> hold.
  The handler calls \<open>refreshToken\<close>, which posts through the same client, and resends
  through the same client, so the three functions are mutually recursive. The first
  argument bounds the depth of that nesting; \<open>None\<close> means the call has not returned
  within it (\<open>more_fuel\<close> below: a result, once reached, stays with more depth).
\<close>

fun client_request :: "nat \<Rightarrow> env \<Rightarrow> request \<Rightarrow> world \<Rightarrow> ((exn + AxiosResponse) \<times> world) option"
  and response_rejected :: "nat \<Rightarrow> env \<Rightarrow> exn \<Rightarrow> world \<Rightarrow> ((exn + AxiosResponse) \<times> world) option"
  and refreshToken :: "nat \<Rightarrow> env \<Rightarrow> world \<Rightarrow> ((exn + AuthResponse) \<times> world) option"
where
  "client_request 0 ev config w = None"
| "client_request (Suc n) ev config w =
     (let (t, w1) = getStoredSessionToken ev w;
          config1 = attach t config;
          w2 = w1\<lparr>sent := sent w1 @ [config1]\<rparr>
      in case server ev (length (sent w1)) config1 of
           Respond r \<Rightarrow>
             if 200 \<le> status r \<and> status r < 300 then Some (Inr r, w2)
             else response_rejected n ev (AxiosError (status_message (status r)) config1 (Some r)) w2
         | NetworkError \<Rightarrow>
             response_rejected n ev (AxiosError ''Network Error'' config1 None) w2
         | Timeout \<Rightarrow>
             response_rejected n ev (AxiosError ''timeout of 30000ms exceeded'' config1 None) w2)"
| "response_rejected 0 ev err w = None"
| "response_rejected (Suc n) ev err w =
     (case err of
        AxiosError m originalRequest (Some r) \<Rightarrow>
          if status r = 401 then
            (case refreshToken n ev w of
               None \<Rightarrow> None
             | Some (Inl refreshError, w1) \<Rightarrow> Some (Inl refreshError, clearSessionToken ev w1)
             | Some (Inr _, w1) \<Rightarrow>
                 (let (t, w2) = getStoredSessionToken ev w1
                  in if usable t
                     then client_request n ev (attach t originalRequest) w2
                     else Some (Inl err, w2)))
          else Some (Inl err, w)
      | _ \<Rightarrow> Some (Inl err, w))"
| "refreshToken 0 ev w = None"
| "refreshToken (Suc n) ev w =
     (case client_request n ev refresh_request w of
        None \<Rightarrow> None
      | Some (Inl e, w1) \<Rightarrow> Some (Inl e, w1)
      | Some (Inr r, w1) \<Rightarrow> Some (unwrap_auth ev ''Token refresh failed'' r w1))"

definition signInWithApple :: "nat \<Rightarrow> env \<Rightarrow> string \<Rightarrow> world \<Rightarrow> ((exn + AuthResponse) \<times> world) option" where
  "signInWithApple n ev credential w =
     (case client_request n ev (apple_request credential) w of
        None \<Rightarrow> None
      | Some (Inl e, w1) \<Rightarrow> Some (Inl e, w1)
      | Some (Inr r, w1) \<Rightarrow> Some (unwrap_auth ev ''Sign-in failed'' r w1))"

text \<open>\<open>apiService.signOut\<close>: only \<open>clearSessionToken\<close>, which swallows a SecureStore
  failure; no request is sent.\<close>

definition signOut :: "env \<Rightarrow> world \<Rightarrow> (exn + unit) \<times> world" where
  "signOut ev w = (Inr (), clearSessionToken ev w)"

section \<open>Thrown values as handleApiError sees them\<close>

definition api_error_js :: "api_error \<Rightarrow> jsval" where
  "api_error_js ae =
     JObj ((''message'', JStr (message ae)) #
           (case code ae of None \<Rightarrow> [] | Some c \<Rightarrow> [(''code'', JStr c)]))"

definition ApiResponse_js :: "ApiResponse \<Rightarrow> jsval" where
  "ApiResponse_js b =
     JObj ((''success'', JBool (success b)) #
           (case ApiResponse.data b of None \<Rightarrow> [] | Some d \<Rightarrow> [(''data'', JObj [])]) @
           (case error b of None \<Rightarrow> [] | Some ae \<Rightarrow> [(''error'', api_error_js ae)]))"

text \<open>The objects thrown: the properties \<open>handleApiError\<close> reads. (The message of a
  SecureStore failure is the platform's; it is some non-empty text.)\<close>

fun exn_js :: "exn \<Rightarrow> jsval" where
  "exn_js (AxiosError m config (Some r)) =
     JObj [(''message'', JStr m),
           (''response'', JObj [(''status'', JNum (Finite (of_nat (status r)))),
                                (''data'', ApiResponse_js (data r))])]"
| "exn_js (AxiosError m config None) = JObj [(''message'', JStr m)]"
| "exn_js (Error m) = JObj [(''message'', JStr m)]"
| "exn_js SecureStoreError = JObj [(''message'', JStr ''SecureStore error'')]"

text \<open>\<open>const errorMessage = handleApiError(error)\<close> in a \<open>catch\<close> block of the state
  containers. On a thrown value of this program \<open>handleApiError\<close> returns a string
  (\<open>handleApiError_exn\<close> below), so the last case is never taken.\<close>

definition error_message :: "exn \<Rightarrow> string" where
  "error_message e = (case handleApiError (exn_js e) of Inr (JStr m) \<Rightarrow> m | _ \<Rightarrow> [])"

section \<open>Auth session state (AuthProvider)\<close>

record AuthState =
  user :: "UserResponse option"
  sessionToken :: "string option"
  isLoading :: bool
  error :: "string option"
  isAvailable :: bool

datatype AuthAction =
    SIGN_IN_START
  | SIGN_IN_SUCCESS UserResponse string
  | SIGN_IN_ERROR string
  | SIGN_OUT
  | SET_LOADING bool
  | SET_AVAILABILITY bool

fun authReducer :: "AuthState \<Rightarrow> AuthAction \<Rightarrow> AuthState" where
  "authReducer s SIGN_IN_START = s\<lparr>isLoading := True, error := None\<rparr>"
| "authReducer s (SIGN_IN_SUCCESS u t) =
     s\<lparr>user := Some u, sessionToken := Some t, isLoading := False, error := None\<rparr>"
| "authReducer s (SIGN_IN_ERROR m) =
     s\<lparr>user := None, sessionToken := None, isLoading := False, error := Some m\<rparr>"
| "authReducer s SIGN_OUT =
     s\<lparr>user := None, sessionToken := None, isLoading := False, error := None\<rparr>"
| "authReducer s (SET_LOADING b) = s\<lparr>isLoading := b\<rparr>"
| "authReducer s (SET_AVAILABILITY b) = s\<lparr>isAvailable := b\<rparr>"

text \<open>\<open>AuthProvider.signOut\<close>: \<open>try { await apiService.signOut(); dispatch SIGN_OUT }
  catch { dispatch SIGN_OUT }\<close>.\<close>

definition AuthProvider_signOut :: "env \<Rightarrow> AuthState \<Rightarrow> world \<Rightarrow> AuthState \<times> world" where
  "AuthProvider_signOut ev s w =
     (case signOut ev w of
        (Inr _, w1) \<Rightarrow> (authReducer s SIGN_OUT, w1)
      | (Inl e, w1) \<Rightarrow> (authReducer s SIGN_OUT, w1))"

definition AuthProvider_refreshToken :: "nat \<Rightarrow> env \<Rightarrow> AuthState \<Rightarrow> world \<Rightarrow> (AuthState \<times> world) option" where
  "AuthProvider_refreshToken n ev s w =
     (case refreshToken n ev w of
        None \<Rightarrow> None
      | Some (Inr a, w1) \<Rightarrow>
          Some (authReducer s (SIGN_IN_SUCCESS (AuthResponse.user a) (AuthResponse.sessionToken a)), w1)
      | Some (Inl e, w1) \<Rightarrow> Some (authReducer s SIGN_OUT, w1))"

section \<open>Credit state (CreditProvider)\<close>

record CreditState =
  photoCredits :: jsnum
  subscriptionTier :: string
  availablePackages :: "CreditPackageResponse list"
  purchaseHistory :: "CreditPurchaseResponse list"
  isLoading :: bool
  error :: "string option"

datatype CreditAction =
    SET_BALANCE jsnum string
  | SET_PACKAGES "CreditPackageResponse list"
  | SET_PURCHASE_HISTORY "CreditPurchaseResponse list"
  | SET_LOADING bool
  | SET_ERROR string
  | CONSUME_CREDIT
  | ADD_PURCHASE CreditPurchaseResponse

definition initialState :: CreditState where
  "initialState =
     \<lparr>photoCredits = Finite 0, subscriptionTier = ''free'', availablePackages = [],
      purchaseHistory = [], isLoading = False, error = None\<rparr>"

text \<open>\<open>ADD_PURCHASE\<close> reads \<open>action.payload.creditsAwarded\<close> off the purchase response.\<close>

fun creditReducer :: "CreditState \<Rightarrow> CreditAction \<Rightarrow> CreditState" where
  "creditReducer s (SET_BALANCE c t) =
     s\<lparr>photoCredits := c, subscriptionTier := t, isLoading := False, error := None\<rparr>"
| "creditReducer s (SET_PACKAGES ps) =
     s\<lparr>availablePackages := ps, isLoading := False, error := None\<rparr>"
| "creditReducer s (SET_PURCHASE_HISTORY h) =
     s\<lparr>purchaseHistory := h, isLoading := False, error := None\<rparr>"
| "creditReducer s (SET_LOADING b) = s\<lparr>isLoading := b, error := None\<rparr>"
| "creditReducer s (SET_ERROR m) = s\<lparr>isLoading := False, error := Some m\<rparr>"
| "creditReducer s CONSUME_CREDIT =
     s\<lparr>photoCredits := Math_max (Finite 0) (num_minus (photoCredits s) (Finite 1))\<rparr>"
| "creditReducer s (ADD_PURCHASE p) =
     s\<lparr>purchaseHistory := p # purchaseHistory s,
       photoCredits := plus_value (photoCredits s)
                         (opt_chain (CreditPurchaseResponse_obj p) ''creditsAwarded'')\<rparr>"

text \<open>
  The application state the photo-transform hook works on: its own state, the credit
  state, every credit state the reducer has produced so far (\<open>history\<close>) and the calls
  made to the API service so far (\<open>calls\<close>).
\<close>

record TransformState =
  isTransforming :: bool
  currentImage :: "string option"
  result :: "PhotoTransformResponse option"
  error :: "string option"
  progress :: "string option"

datatype background = Cartoon | Lego | Photo

datatype api_call =
    Call_transformPhoto string background "string option"
  | Call_getCreditBalance

record app =
  hook :: TransformState
  credit :: CreditState
  history :: "CreditState list"
  calls :: "api_call list"

definition dispatch :: "CreditAction \<Rightarrow> app \<Rightarrow> app" where
  "dispatch act a =
     (let s = creditReducer (credit a) act in a\<lparr>credit := s, history := history a @ [s]\<rparr>)"

text \<open>
  \<open>refreshBalance\<close>; \<open>reply\<close> is what \<open>apiService.getCreditBalance()\<close> answers: \<open>None\<close> when
  the call never settles, otherwise the value thrown or the balance returned. The first
  component of the result says whether \<open>refreshBalance\<close> returned.
\<close>

definition refreshBalance :: "(exn + CreditBalanceResponse) option \<Rightarrow> app \<Rightarrow> bool \<times> app" where
  "refreshBalance reply a =
     (let a1 = dispatch (SET_LOADING True) a;
          a2 = a1\<lparr>calls := calls a1 @ [Call_getCreditBalance]\<rparr>
      in case reply of
           None \<Rightarrow> (False, a2)
         | Some (Inr response) \<Rightarrow>
             (True, dispatch (SET_BALANCE (CreditBalanceResponse.photoCredits response)
                                          (CreditBalanceResponse.subscriptionTier response)) a2)
         | Some (Inl e) \<Rightarrow> (True, dispatch (SET_ERROR (error_message e)) a2))"

definition consumeCredit :: "app \<Rightarrow> app" where
  "consumeCredit a = dispatch CONSUME_CREDIT a"

text \<open>The optimistic-decrement and resync cycle: any sequence of the two.\<close>

datatype cycle_event = Decrement | Resync "(exn + CreditBalanceResponse) option"

fun cycle_step :: "app \<Rightarrow> cycle_event \<Rightarrow> app" where
  "cycle_step a Decrement = consumeCredit a"
| "cycle_step a (Resync reply) = snd (refreshBalance reply a)"

definition run_cycle :: "app \<Rightarrow> cycle_event list \<Rightarrow> app" where
  "run_cycle a evs = foldl cycle_step a evs"

text \<open>A number that is \<open>\<ge> 0\<close> (so not \<open>NaN\<close>).\<close>

fun nonneg :: "jsnum \<Rightarrow> bool" where
  "nonneg (Finite n) = (0 \<le> n)"
| "nonneg PosInf = True"
| "nonneg NegInf = False"
| "nonneg NaN = False"

section \<open>The photo-transform hook (usePhotoTransform)\<close>

record transform_return =
  success :: bool
  result :: "PhotoTransformResponse option"
  error :: "string option"

definition checkCredits :: "app \<Rightarrow> bool" where
  "checkCredits a = num_ge (photoCredits (credit a)) (Finite 1)"

definition no_image_message :: string where
  "no_image_message = ''No image selected. Please take or select a photo first.''"

definition insufficient_message :: string where
  "insufficient_message = ''Insufficient credits. Please purchase more credits to continue.''"

text \<open>
  \<open>transformPhoto\<close>; \<open>transform_reply\<close> is what \<open>apiService.transformPhoto(...)\<close> answers and
  \<open>balance_reply\<close> what \<open>apiService.getCreditBalance()\<close> answers, should they be called:
  \<open>None\<close> when the call never settles (a request caught in the client's unbounded
  refresh nesting never does, see \<open>always_401_never_returns\<close> below), otherwise the value
  returned or the value thrown (an axios error for a status outside 200..299, a network
  failure or the timeout; an \<open>Error\<close> for an unsuccessful envelope). The hook is stated for
  every such pair of answers. Its result is \<open>None\<close> when the hook call itself never
  returns, because a call it awaits never settles; the state is then the one reached at
  that await. The reads of \<open>state.currentImage\<close> and \<open>creditState.photoCredits\<close> are those
  of the render the callback was created in, which is the state the call starts from.
\<close>


definition reject :: "string \<Rightarrow> app \<Rightarrow> transform_return option \<times> app" where
  "reject m a =
     (Some \<lparr>success = False, result = None, error = Some m\<rparr>,
      a\<lparr>hook := (hook a)\<lparr>TransformState.error := Some m\<rparr>\<rparr>)"

definition transformPhoto ::
  "(exn + PhotoTransformResponse) option \<Rightarrow> (exn + CreditBalanceResponse) option \<Rightarrow> background
     \<Rightarrow> string option \<Rightarrow> app \<Rightarrow> transform_return option \<times> app" where
  "transformPhoto transform_reply balance_reply bg prompt a =
     (case currentImage (hook a) of
        None \<Rightarrow> reject no_image_message a
      | Some uri \<Rightarrow>
          if uri = [] then reject no_image_message a
          else if \<not> checkCredits a then reject insufficient_message a
          else
            (let a1 = a\<lparr>hook := (hook a)\<lparr>isTransforming := True, TransformState.error := None,
                                         progress := Some ''Uploading your photo...''\<rparr>\<rparr>;
                 a2 = consumeCredit a1;
                 a3 = a2\<lparr>hook := (hook a2)\<lparr>progress := Some ''AI is working its magic...''\<rparr>\<rparr>;
                 a4 = a3\<lparr>calls := calls a3 @ [Call_transformPhoto uri bg prompt]\<rparr>
             in case transform_reply of
                  None \<Rightarrow> (None, a4)
                | Some (Inr res) \<Rightarrow>
                    (let a5 = a4\<lparr>hook := (hook a4)\<lparr>isTransforming := False,
                                                   TransformState.result := Some res,
                                                   progress := None\<rparr>\<rparr>;
                         (returned, a6) = refreshBalance balance_reply a5
                     in (if returned then Some \<lparr>success = True, result = Some res, error = None\<rparr>
                         else None, a6))
                | Some (Inl e) \<Rightarrow>
                    (let a5 = a4\<lparr>hook := (hook a4)\<lparr>isTransforming := False,
                                                   TransformState.error := Some (error_message e),
                                                   progress := None\<rparr>\<rparr>;
                         (returned, a6) = refreshBalance balance_reply a5
                     in (if returned
                         then Some \<lparr>success = False, result = None, error = Some (error_message e)\<rparr>
                         else None, a6))))"

section \<open>Auxiliary notions used in the statements\<close>

text \<open>A value that is a string, or else is falsy (absent, \<open>null\<close>, \<open>false\<close>, \<open>0\<close>, \<open>NaN\<close>).\<close>

definition text_or_falsy :: "jsval \<Rightarrow> bool" where
  "text_or_falsy v = (case v of JStr s \<Rightarrow> True | _ \<Rightarrow> \<not> truthy v)"

text \<open>\<open>error.response?.data?.error\<close> of a value \<open>error\<close> that is not \<open>null\<close> or \<open>undefined\<close>.\<close>

definition carried_error :: "jsval \<Rightarrow> jsval" where
  "carried_error err = server_error (opt_chain err ''response'')"

text \<open>The credit state now and every credit state the reducer has produced so far hold a
  balance that is a number \<open>\<ge> 0\<close>.\<close>

definition never_negative :: "app \<Rightarrow> bool" where
  "never_negative a = list_all (\<lambda>s. nonneg (photoCredits s)) (credit a # history a)"

section \<open>Concrete scenarios\<close>

definition rate_limited_error :: jsval where
  "rate_limited_error =
     JObj [(''message'', JStr ''Request failed with status code 429''),
           (''response'', JObj [(''status'', JNum (Finite 429)),
              (''data'', JObj [(''success'', JBool False),
                 (''error'', JObj [(''message'', JStr ''Slow down''),
                                   (''code'', JStr ''RATE_LIMITED'')])])])]"

definition purchase_example :: CreditPurchaseResponse where
  "purchase_example =
     \<lparr>CreditPurchaseResponse.publicId = ''pur_1'', creditsAdded = Finite 8, amount = Finite 499,
      status = ''completed'', receiptData = ''receipt'', createdAt = ''2025-01-01T00:00:00Z''\<rparr>"

definition app_with :: "rat \<Rightarrow> string option \<Rightarrow> app" where
  "app_with b img =
     \<lparr>hook = \<lparr>isTransforming = False, currentImage = img, result = None,
               error = None, progress = None\<rparr>,
      credit = initialState\<lparr>photoCredits := Finite b\<rparr>,
      history = [], calls = []\<rparr>"

definition balance_five :: CreditBalanceResponse where
  "balance_five = \<lparr>CreditBalanceResponse.photoCredits = Finite 5, subscriptionTier = ''none'',
                    subscriptionEndsAt = None\<rparr>"

definition balance_negative :: CreditBalanceResponse where
  "balance_negative = \<lparr>CreditBalanceResponse.photoCredits = Finite (- 4), subscriptionTier = ''none'',
                        subscriptionEndsAt = None\<rparr>"

definition cycle_example :: "cycle_event list" where
  "cycle_example =
     [Decrement, Decrement, Resync (Some (Inr balance_five)), Resync (Some (Inl (Error ''offline''))),
      Decrement]"


definition photo_uri :: string where "photo_uri = ''file:///photo.jpg''"

definition transform_request :: request where
  "transform_request =
     \<lparr>http_method = ''POST'', url = ''/api/transform'', authorization = Some ''Bearer t0'',
      body = Some ''multipart''\<rparr>"

definition timeout_error :: exn where
  "timeout_error = AxiosError ''timeout of 30000ms exceeded'' transform_request None"

definition transform_ok :: PhotoTransformResponse where
  "transform_ok =
     \<lparr>PhotoTransformResponse.publicId = ''tr_1'', backgroundType = ''cartoon'', customPrompt = None,
      status = ''completed'', resultImageUrl = Some ''https://cdn/result.jpg'',
      errorMessage = None, creditsUsed = Finite 1\<rparr>"

definition balance_zero :: CreditBalanceResponse where
  "balance_zero = \<lparr>CreditBalanceResponse.photoCredits = Finite 0, subscriptionTier = ''none'',
                    subscriptionEndsAt = None\<rparr>"


definition world0 :: world where
  "world0 = \<lparr>token = Some ''old'', store_calls = 0, sent = []\<rparr>"

definition user_example :: UserResponse where
  "user_example =
     \<lparr>UserResponse.publicId = ''usr_1'', firstName = None, lastName = None, email = None,
      photoCredits = Finite 3, subscriptionTier = ''none''\<rparr>"

definition auth_ok :: "string \<Rightarrow> AxiosResponse" where
  "auth_ok t =
     \<lparr>status = 200,
      data = \<lparr>ApiResponse.success = True,
              data = Some (AuthData \<lparr>AuthResponse.user = user_example, sessionToken = t\<rparr>),
              error = None\<rparr>\<rparr>"

definition failed :: "nat \<Rightarrow> string \<Rightarrow> AxiosResponse" where
  "failed st c =
     \<lparr>status = st,
      data = \<lparr>ApiResponse.success = False, data = None,
              error = Some \<lparr>message = ''refused'', code = Some c\<rparr>\<rparr>\<rparr>"

definition other_ok :: AxiosResponse where
  "other_ok = \<lparr>status = 200,
               data = \<lparr>ApiResponse.success = True, data = Some OtherData, error = None\<rparr>\<rparr>"

definition get_me :: request where
  "get_me = \<lparr>http_method = ''GET'', url = ''/api/users/me'', authorization = None, body = None\<rparr>"

definition reliable :: "nat \<Rightarrow> bool" where
  "reliable k = False"

text \<open>401, refresh accepted, 401 again, refresh accepted, 200.\<close>

definition env_two_401 :: env where
  "env_two_401 =
     \<lparr>server = (\<lambda>k req. if k = 0 then Respond (failed 401 ''INVALID_TOKEN'')
                          else if k = 1 then Respond (auth_ok ''t1'')
                          else if k = 2 then Respond (failed 401 ''INVALID_TOKEN'')
                          else if k = 3 then Respond (auth_ok ''t2'')
                          else Respond other_ok),
      store_throws = reliable\<rparr>"

definition env_all_401 :: env where
  "env_all_401 = \<lparr>server = (\<lambda>k req. Respond (failed 401 ''INVALID_TOKEN'')), store_throws = reliable\<rparr>"

definition env_refresh_500 :: env where
  "env_refresh_500 =
     \<lparr>server = (\<lambda>k req. if k = 0 then Respond (failed 401 ''INVALID_TOKEN'')
                          else Respond (failed 500 ''SERVER_ERROR'')),
      store_throws = reliable\<rparr>"

definition env_accepting :: env where
  "env_accepting = \<lparr>server = (\<lambda>k req. Respond (auth_ok ''t1'')), store_throws = reliable\<rparr>"

definition env_store_broken :: env where
  "env_store_broken = \<lparr>server = (\<lambda>k req. NetworkError), store_throws = (\<lambda>k. True)\<rparr>"

definition signed_in :: AuthState where
  "signed_in =
     \<lparr>AuthState.user = Some user_example, sessionToken = Some ''old'', isLoading = False,
      error = None, isAvailable = True\<rparr>"

definition auth_t1 :: AuthResponse where
  "auth_t1 = \<lparr>AuthResponse.user = user_example, sessionToken = ''t1''\<rparr>"

definition world_after_apple :: world where
  "world_after_apple =
     \<lparr>token = Some ''t1'', store_calls = 2,
      sent = [\<lparr>http_method = ''POST'', url = ''/auth/apple'',
               authorization = Some ''Bearer old'', body = Some ''identity''\<rparr>]\<rparr>"

definition world_after_refresh :: world where
  "world_after_refresh =
     \<lparr>token = Some ''t1'', store_calls = 2,
      sent = [\<lparr>http_method = ''POST'', url = ''/auth/refresh'',
               authorization = Some ''Bearer old'', body = None\<rparr>]\<rparr>"

definition refresh_sent :: request where
  "refresh_sent = refresh_request\<lparr>authorization := Some ''Bearer old''\<rparr>"

definition get_me_sent :: request where
  "get_me_sent = get_me\<lparr>authorization := Some ''Bearer old''\<rparr>"

definition refresh_500_error :: exn where
  "refresh_500_error =
     AxiosError ''Request failed with status code 500'' refresh_sent (Some (failed 500 ''SERVER_ERROR''))"

definition original_401_error :: exn where
  "original_401_error =
     AxiosError ''Request failed with status code 401'' get_me_sent (Some (failed 401 ''INVALID_TOKEN''))"

definition world_after_401 :: world where
  "world_after_401 = \<lparr>token = Some ''old'', store_calls = 1, sent = [get_me_sent]\<rparr>"

definition world_after_500 :: world where
  "world_after_500 = \<lparr>token = Some ''old'', store_calls = 2, sent = [get_me_sent, refresh_sent]\<rparr>"

text \<open>The refresh call is answered 401 once, then accepted twice.\<close>

definition env_refresh_401_once :: env where
  "env_refresh_401_once =
     \<lparr>server = (\<lambda>k req. if k = 0 then Respond (failed 401 ''INVALID_TOKEN'')
                          else if k = 1 then Respond (auth_ok ''t1'')
                          else Respond (auth_ok ''t2'')),
      store_throws = reliable\<rparr>"


text \<open>Every refresh is accepted and every other request is answered 401.\<close>

definition env_refresh_accepted_rest_401 :: env where
  "env_refresh_accepted_rest_401 =
     \<lparr>server = (\<lambda>k req. if url req = ''/auth/refresh'' then Respond (auth_ok ''t1'')
                          else Respond (failed 401 ''INVALID_TOKEN'')),
      store_throws = reliable\<rparr>"


section \<open>handleApiError\<close>

lemma creditsAwarded_undefined:
  "opt_chain (CreditPurchaseResponse_obj p) ''creditsAwarded'' = JUndefined"
  by (simp add: CreditPurchaseResponse_obj_def opt_chain_def)

lemma switch_code_messages:
  "switch_code (JStr INSUFFICIENT_CREDITS) = Some ''Insufficient credits. Please purchase more credits to continue.''"
  "switch_code (JStr INVALID_IMAGE) = Some ''Invalid image format. Please try with a different photo.''"
  "switch_code (JStr TRANSFORMATION_ERROR) = Some ''Photo transformation failed. Please try again.''"
  "switch_code (JStr AUTHENTICATION_REQUIRED) = Some ''Please sign in to continue.''"
  "switch_code (JStr INVALID_TOKEN) = Some ''Session expired. Please sign in again.''"
  "switch_code (JStr RATE_LIMITED) = Some ''Too many requests. Please try again later.''"
  "switch_code (JStr SERVICE_UNAVAILABLE) = Some ''Service temporarily unavailable. Please try again later.''"
  by (simp_all add: switch_code_def INSUFFICIENT_CREDITS_def INVALID_IMAGE_def TRANSFORMATION_ERROR_def
      AUTHENTICATION_REQUIRED_def INVALID_TOKEN_def RATE_LIMITED_def SERVICE_UNAVAILABLE_def)

lemma switch_code_nonempty: "switch_code c = Some m \<Longrightarrow> m \<noteq> []"
  by (auto simp: switch_code_def split: if_splits)

lemma get_prop_defined:
  "v \<noteq> JNull \<Longrightarrow> v \<noteq> JUndefined \<Longrightarrow> get_prop v p = Inr (opt_chain v p)"
  by (cases v) (simp_all add: opt_chain_def)

lemma handleApiError_value:
  assumes "err \<noteq> JNull" "err \<noteq> JUndefined"
  shows "handleApiError err = Inr
    (let se = server_error (opt_chain err ''response'') in
     if truthy se then
       (case switch_code (opt_chain se ''code'') of
          Some fixed \<Rightarrow> JStr fixed
        | None \<Rightarrow> if truthy (opt_chain se ''message'') then opt_chain se ''message''
                  else JStr ''Something went wrong. Please try again.'')
     else if truthy (opt_chain err ''message'') then opt_chain err ''message''
     else JStr ''Network error. Please check your connection.'')"
  by (simp add: handleApiError_def get_prop_defined[OF assms] Let_def split: option.splits)

lemma text_truthy: "text_or_falsy v \<Longrightarrow> truthy v \<Longrightarrow> \<exists>s. v = JStr s \<and> s \<noteq> []"
  by (cases v) (auto simp: text_or_falsy_def)

lemma exn_js_object: "\<exists>ps. exn_js e = JObj ps"
  by (cases e rule: exn_js.cases) simp_all

lemma exn_js_message: "\<exists>m. opt_chain (exn_js e) ''message'' = JStr m"
  by (cases e rule: exn_js.cases) (simp_all add: opt_chain_def)

lemma exn_js_server_error:
  "server_error (opt_chain (exn_js e) ''response'') = JUndefined \<or>
   (\<exists>ae. server_error (opt_chain (exn_js e) ''response'') = api_error_js ae)"
  by (cases e rule: exn_js.cases)
     (auto simp: opt_chain_def server_error_def ApiResponse_js_def split: option.splits)

lemma api_error_js_message: "opt_chain (api_error_js ae) ''message'' = JStr (message ae)"
  by (simp add: api_error_js_def opt_chain_def)

lemma handleApiError_exn: "\<exists>m. handleApiError (exn_js e) = Inr (JStr m) \<and> m \<noteq> []"
proof -
  obtain ps where obj: "exn_js e = JObj ps" using exn_js_object by blast
  obtain m where msg: "opt_chain (exn_js e) ''message'' = JStr m" using exn_js_message by blast
  have v: "handleApiError (exn_js e) = Inr
    (let se = server_error (opt_chain (exn_js e) ''response'') in
     if truthy se then
       (case switch_code (opt_chain se ''code'') of
          Some fixed \<Rightarrow> JStr fixed
        | None \<Rightarrow> if truthy (opt_chain se ''message'') then opt_chain se ''message''
                  else JStr ''Something went wrong. Please try again.'')
     else if truthy (opt_chain (exn_js e) ''message'') then opt_chain (exn_js e) ''message''
     else JStr ''Network error. Please check your connection.'')"
    by (rule handleApiError_value) (simp_all add: obj)
  from exn_js_server_error[of e] show ?thesis
  proof
    assume "server_error (opt_chain (exn_js e) ''response'') = JUndefined"
    then show ?thesis using v msg by (cases "m = []") simp_all
  next
    assume "\<exists>ae. server_error (opt_chain (exn_js e) ''response'') = api_error_js ae"
    then obtain ae where se: "server_error (opt_chain (exn_js e) ''response'') = api_error_js ae" by blast
    have t: "truthy (api_error_js ae)" by (simp add: api_error_js_def)
    show ?thesis
    proof (cases "switch_code (opt_chain (api_error_js ae) ''code'')")
      case None
      then show ?thesis using v se t by (simp add: api_error_js_message)
    next
      case (Some fixed)
      then show ?thesis using v se t switch_code_nonempty[OF Some] by simp
    qed
  qed
qed

lemma error_message_nonempty: "error_message e \<noteq> []"
  using handleApiError_exn[of e] by (auto simp: error_message_def)

text \<open>
  Claim C10, as amended. For every input other than \<open>null\<close> and \<open>undefined\<close>,
  \<open>handleApiError\<close> returns a value: when the input carries a server error object, each of
  the seven known codes gives its fixed message and any other code gives the carried
  message, or the generic fallback when that message is falsy; otherwise it gives the
  input's own message, or the network fallback when that is falsy. When the carried
  messages are strings (or falsy), the result is a non-empty string.
\<close>

theorem handleApiError_defined_input:
  assumes "err \<noteq> JNull" and "err \<noteq> JUndefined"
  shows "\<exists>v. handleApiError err = Inr v \<and>
     (truthy (carried_error err) \<longrightarrow>
        (\<forall>fixed. switch_code (opt_chain (carried_error err) ''code'') = Some fixed \<longrightarrow> v = JStr fixed) \<and>
        (switch_code (opt_chain (carried_error err) ''code'') = None \<longrightarrow>
           v = (if truthy (opt_chain (carried_error err) ''message'')
                then opt_chain (carried_error err) ''message''
                else JStr ''Something went wrong. Please try again.''))) \<and>
     (\<not> truthy (carried_error err) \<longrightarrow>
        v = (if truthy (opt_chain err ''message'') then opt_chain err ''message''
             else JStr ''Network error. Please check your connection.'')) \<and>
     (text_or_falsy (opt_chain (carried_error err) ''message'') \<and>
      text_or_falsy (opt_chain err ''message'') \<longrightarrow> (\<exists>s. v = JStr s \<and> s \<noteq> [])) \<and>
     switch_code (JStr INSUFFICIENT_CREDITS) =
       Some ''Insufficient credits. Please purchase more credits to continue.'' \<and>
     switch_code (JStr INVALID_IMAGE) =
       Some ''Invalid image format. Please try with a different photo.'' \<and>
     switch_code (JStr TRANSFORMATION_ERROR) =
       Some ''Photo transformation failed. Please try again.'' \<and>
     switch_code (JStr AUTHENTICATION_REQUIRED) = Some ''Please sign in to continue.'' \<and>
     switch_code (JStr INVALID_TOKEN) = Some ''Session expired. Please sign in again.'' \<and>
     switch_code (JStr RATE_LIMITED) = Some ''Too many requests. Please try again later.'' \<and>
     switch_code (JStr SERVICE_UNAVAILABLE) =
       Some ''Service temporarily unavailable. Please try again later.''"
proof -
  let ?se = "carried_error err"
  let ?v = "if truthy ?se then
       (case switch_code (opt_chain ?se ''code'') of
          Some fixed \<Rightarrow> JStr fixed
        | None \<Rightarrow> if truthy (opt_chain ?se ''message'') then opt_chain ?se ''message''
                  else JStr ''Something went wrong. Please try again.'')
     else if truthy (opt_chain err ''message'') then opt_chain err ''message''
     else JStr ''Network error. Please check your connection.''"
  have v: "handleApiError err = Inr ?v"
    using handleApiError_value[OF assms] unfolding carried_error_def by (simp add: Let_def)
  have strv: "\<exists>s. ?v = JStr s \<and> s \<noteq> []"
    if "text_or_falsy (opt_chain ?se ''message'')" and "text_or_falsy (opt_chain err ''message'')"
    using that text_truthy switch_code_nonempty
    by (auto split: option.splits)
  show ?thesis
    apply (rule exI[of _ ?v])
    apply (intro conjI)
    subgoal by (rule v)
    subgoal by simp
    subgoal by simp
    subgoal using strv by blast
    by (rule switch_code_messages)+
qed

lemma rate_limited_carried:
  "carried_error rate_limited_error =
     JObj [(''message'', JStr ''Slow down''), (''code'', JStr ''RATE_LIMITED'')]"
  by (simp add: carried_error_def server_error_def opt_chain_def rate_limited_error_def)

text \<open>Witness for C10: a 429 response with code \<open>RATE_LIMITED\<close>.\<close>

theorem handleApiError_defined_input_witness:
  "rate_limited_error \<noteq> JNull \<and> rate_limited_error \<noteq> JUndefined \<and>
   truthy (carried_error rate_limited_error) \<and>
   text_or_falsy (opt_chain (carried_error rate_limited_error) ''message'') \<and>
   text_or_falsy (opt_chain rate_limited_error ''message'') \<and>
   handleApiError rate_limited_error = Inr (JStr ''Too many requests. Please try again later.'')"
proof -
  have d: "rate_limited_error \<noteq> JNull" "rate_limited_error \<noteq> JUndefined"
    by (simp_all add: rate_limited_error_def)
  have c: "opt_chain (carried_error rate_limited_error) ''code'' = JStr RATE_LIMITED"
    by (simp add: rate_limited_carried opt_chain_def RATE_LIMITED_def)
  have t: "truthy (carried_error rate_limited_error)"
    by (simp add: rate_limited_carried)
  have m: "text_or_falsy (opt_chain (carried_error rate_limited_error) ''message'')"
    by (simp add: rate_limited_carried opt_chain_def text_or_falsy_def)
  have m': "text_or_falsy (opt_chain rate_limited_error ''message'')"
    by (simp add: opt_chain_def text_or_falsy_def rate_limited_error_def)
  from handleApiError_defined_input[OF d] obtain v where
    v: "handleApiError rate_limited_error = Inr v"
    and f: "\<forall>fixed. switch_code (opt_chain (carried_error rate_limited_error) ''code'') = Some fixed
              \<longrightarrow> v = JStr fixed"
    and r: "switch_code (JStr RATE_LIMITED) = Some ''Too many requests. Please try again later.''"
    using t by blast
  from f r c have "v = JStr ''Too many requests. Please try again later.''" by simp
  with v d t m m' show ?thesis by simp
qed

text \<open>
  Counterexample for C10 as stated: on \<open>null\<close> and on \<open>undefined\<close> the read
  \<open>error.response\<close> throws a TypeError, so nothing is returned; and a truthy message that
  is not a string is returned as it is.
\<close>

theorem handleApiError_not_total:
  "handleApiError JNull = Inl TypeError \<and>
   handleApiError JUndefined = Inl TypeError \<and>
   handleApiError (JObj [(''message'', JNum (Finite 42))]) = Inr (JNum (Finite 42))"
  by (simp add: handleApiError_def server_error_def opt_chain_def)

section \<open>HTTP client core and auth session\<close>

text \<open>More nesting depth never changes a result that was reached.\<close>

lemma more_fuel:
  "(client_request n ev config w = Some x \<longrightarrow> client_request (Suc n) ev config w = Some x) \<and>
   (response_rejected n ev err w = Some x \<longrightarrow> response_rejected (Suc n) ev err w = Some x) \<and>
   (refreshToken n ev w = Some y \<longrightarrow> refreshToken (Suc n) ev w = Some y)"
proof (induction n arbitrary: config w err x y)
  case 0
  then show ?case by simp
next
  case (Suc n)
  have ih_c: "\<And>config w x. client_request n ev config w = Some x \<Longrightarrow>
                client_request (Suc n) ev config w = Some x"
    and ih_r: "\<And>err w x. response_rejected n ev err w = Some x \<Longrightarrow>
                response_rejected (Suc n) ev err w = Some x"
    and ih_f: "\<And>w y. refreshToken n ev w = Some y \<Longrightarrow> refreshToken (Suc n) ev w = Some y"
    using Suc.IH by blast+
  have c: "client_request (Suc (Suc n)) ev config w = Some x"
    if h: "client_request (Suc n) ev config w = Some x"
  proof -
    from h show ?thesis
      unfolding client_request.simps(2)[of n] client_request.simps(2)[of "Suc n"]
      by (auto simp del: client_request.simps response_rejected.simps refreshToken.simps
               simp: Let_def intro: ih_r split: prod.splits http_outcome.splits if_splits)
  qed
  have f: "refreshToken (Suc (Suc n)) ev w = Some y" if h: "refreshToken (Suc n) ev w = Some y"
  proof -
    from h show ?thesis
      unfolding refreshToken.simps(2)[of n] refreshToken.simps(2)[of "Suc n"]
      by (auto simp del: client_request.simps response_rejected.simps refreshToken.simps
               dest: ih_c split: option.splits sum.splits prod.splits)
  qed
  have r: "response_rejected (Suc (Suc n)) ev err w = Some x"
    if h: "response_rejected (Suc n) ev err w = Some x"
  proof (cases "refreshToken n ev w")
    case None
    with h show ?thesis
      unfolding response_rejected.simps(2)[of n] response_rejected.simps(2)[of "Suc n"]
      by (auto simp del: client_request.simps response_rejected.simps refreshToken.simps
               split: exn.splits option.splits if_splits)
  next
    case (Some res)
    have "refreshToken (Suc n) ev w = Some res" using Some by (rule ih_f)
    with h Some show ?thesis
      unfolding response_rejected.simps(2)[of n] response_rejected.simps(2)[of "Suc n"]
      by (auto simp del: client_request.simps response_rejected.simps refreshToken.simps
               simp: Let_def intro: ih_c
               split: exn.splits option.splits sum.splits prod.splits if_splits)
  qed
  from c f r show ?case by blast
qed

lemma enough_fuel:
  "client_request n ev config w = Some x \<Longrightarrow> client_request (n + k) ev config w = Some x"
proof (induction k)
  case 0
  then show ?case by simp
next
  case (Suc k)
  then have "client_request (n + k) ev config w = Some x" by blast
  then have "client_request (Suc (n + k)) ev config w = Some x" using more_fuel by blast
  then show ?case by (simp only: add_Suc_right)
qed

lemma enough_fuel_refreshToken:
  "refreshToken n ev w = Some y \<Longrightarrow> refreshToken (n + k) ev w = Some y"
proof (induction k)
  case 0
  then show ?case by simp
next
  case (Suc k)
  then have "refreshToken (n + k) ev w = Some y" by blast
  then have "refreshToken (Suc (n + k)) ev w = Some y" using more_fuel by blast
  then show ?case by (simp only: add_Suc_right)
qed

lemma unwrap_auth_success:
  "unwrap_auth ev fallback r w = (Inr a, w') \<Longrightarrow>
     ApiResponse.data (data r) = Some (AuthData a) \<and> token w' = Some (AuthResponse.sessionToken a)"
  by (auto simp: unwrap_auth_def storeSessionToken_def
           split: bool.splits option.splits body_data.splits if_splits)

text \<open>
  Claim C8. Whenever \<open>signInWithApple\<close> or \<open>refreshToken\<close> returns an \<open>AuthResponse\<close>, the
  token in the store at that moment is the \<open>sessionToken\<close> of the returned response, and
  the returned response is the payload of the response the client got for the sign-in
  (or refresh) request.
\<close>

theorem successful_auth_stores_token:
  "(signInWithApple n ev credential w = Some (Inr a, w') \<longrightarrow>
      token w' = Some (AuthResponse.sessionToken a) \<and>
      (\<exists>r w1. client_request n ev (apple_request credential) w = Some (Inr r, w1) \<and>
               ApiResponse.data (data r) = Some (AuthData a))) \<and>
   (refreshToken n ev w = Some (Inr a, w') \<longrightarrow>
      token w' = Some (AuthResponse.sessionToken a) \<and>
      (\<exists>r w1. client_request (n - 1) ev refresh_request w = Some (Inr r, w1) \<and>
               ApiResponse.data (data r) = Some (AuthData a)))"
proof (intro conjI impI)
  assume h: "signInWithApple n ev credential w = Some (Inr a, w')"
  then obtain r w1 where c: "client_request n ev (apple_request credential) w = Some (Inr r, w1)"
    and u: "unwrap_auth ev ''Sign-in failed'' r w1 = (Inr a, w')"
    by (auto simp: signInWithApple_def split: option.splits sum.splits prod.splits)
  from unwrap_auth_success[OF u] c
  show "token w' = Some (AuthResponse.sessionToken a)"
    and "\<exists>r w1. client_request n ev (apple_request credential) w = Some (Inr r, w1) \<and>
               ApiResponse.data (data r) = Some (AuthData a)"
    by auto
next
  assume h: "refreshToken n ev w = Some (Inr a, w')"
  then obtain k where n: "n = Suc k" by (cases n) simp_all
  from h n obtain r w1 where c: "client_request k ev refresh_request w = Some (Inr r, w1)"
    and u: "unwrap_auth ev ''Token refresh failed'' r w1 = (Inr a, w')"
    by (auto split: option.splits sum.splits prod.splits)
  from unwrap_auth_success[OF u] c n
  show "token w' = Some (AuthResponse.sessionToken a)"
    and "\<exists>r w1. client_request (n - 1) ev refresh_request w = Some (Inr r, w1) \<and>
               ApiResponse.data (data r) = Some (AuthData a)"
    by auto
qed

text \<open>Witness for C8: a backend that accepts, with token \<open>t1\<close>; the store held \<open>old\<close>.\<close>

theorem successful_auth_stores_token_witness:
  "signInWithApple 2 env_accepting ''identity'' world0 = Some (Inr auth_t1, world_after_apple) \<and>
   refreshToken 2 env_accepting world0 = Some (Inr auth_t1, world_after_refresh) \<and>
   token world_after_apple = Some (AuthResponse.sessionToken auth_t1) \<and>
   token world_after_refresh = Some (AuthResponse.sessionToken auth_t1)"
proof -
  have a: "signInWithApple 2 env_accepting ''identity'' world0 = Some (Inr auth_t1, world_after_apple)"
    by code_simp
  have b: "refreshToken 2 env_accepting world0 = Some (Inr auth_t1, world_after_refresh)"
    by code_simp
  from successful_auth_stores_token[of 2 env_accepting "''identity''" world0 auth_t1 world_after_apple]
    a have c: "token world_after_apple = Some (AuthResponse.sessionToken auth_t1)" by blast
  from successful_auth_stores_token[of 2 env_accepting "''identity''" world0 auth_t1 world_after_refresh]
    b have d: "token world_after_refresh = Some (AuthResponse.sessionToken auth_t1)" by blast
  from a b c d show ?thesis by blast
qed

lemma clearSessionToken_sent [simp]: "sent (clearSessionToken ev w) = sent w"
  by (simp add: clearSessionToken_def)

lemma clearSessionToken_token:
  "token (clearSessionToken ev w) = (if store_throws ev (store_calls w) then token w else None)"
  by (simp add: clearSessionToken_def)

text \<open>
  Claim C6, as amended. When a response is a 401 and the refresh that the interceptor
  starts fails with an error, the interceptor calls \<open>clearSessionToken\<close> and rejects with
  the refresh's error (not with the original 401 error); nothing is sent after the failed
  refresh, so the original request is not retried. \<open>clearSessionToken\<close> removes the stored
  token, unless SecureStore's delete throws: that failure is swallowed and the token stays.
\<close>

theorem refresh_failure_propagates_refresh_error:
  assumes "status r = 401" and "refreshToken n ev w = Some (Inl refreshError, w1)"
  shows "response_rejected (Suc n) ev (AxiosError m originalRequest (Some r)) w =
           Some (Inl refreshError, clearSessionToken ev w1) \<and>
         sent (clearSessionToken ev w1) = sent w1 \<and>
         token (clearSessionToken ev w1) =
           (if store_throws ev (store_calls w1) then token w1 else None)"
  using assms by (simp add: clearSessionToken_token)

text \<open>Witness for C6: the request is answered 401 and the refresh is answered 500.\<close>

theorem refresh_failure_propagates_refresh_error_witness:
  "status (failed 401 ''INVALID_TOKEN'') = 401 \<and>
   refreshToken 3 env_refresh_500 world_after_401 = Some (Inl refresh_500_error, world_after_500) \<and>
   response_rejected 4 env_refresh_500 original_401_error world_after_401 =
     Some (Inl refresh_500_error, world_after_500\<lparr>token := None, store_calls := 3\<rparr>)"
proof -
  have a: "status (failed 401 ''INVALID_TOKEN'') = 401" by (simp add: failed_def)
  have b: "refreshToken 3 env_refresh_500 world_after_401 = Some (Inl refresh_500_error, world_after_500)"
    by code_simp
  have c: "clearSessionToken env_refresh_500 world_after_500 =
             world_after_500\<lparr>token := None, store_calls := 3\<rparr>"
    by code_simp
  from refresh_failure_propagates_refresh_error[OF a b,
      of "''Request failed with status code 401''" get_me_sent]
  show ?thesis using a b c by (simp add: original_401_error_def)
qed

text \<open>
  Counterexample for C6 as stated: in the same run the caller receives the refresh call's
  500 error, which is not the original request's 401 error.
\<close>

theorem refresh_failure_drops_original_error:
  "map_option fst (client_request 5 env_refresh_500 get_me world0) = Some (Inl refresh_500_error) \<and>
   refresh_500_error \<noteq> original_401_error"
  by code_simp

text \<open>
  Claim C9, as amended. \<open>AuthProvider.signOut\<close> always ends in the signed-out auth state
  (user and sessionToken cleared, not loading, no error) and sends no request. The stored
  token is removed when SecureStore's delete succeeds; when the delete throws, the error
  is swallowed and the stored token stays as it was.
\<close>

theorem signOut_local:
  "fst (AuthProvider_signOut ev s w) = s\<lparr>AuthState.user := None, AuthState.sessionToken := None,
                                         AuthState.isLoading := False, AuthState.error := None\<rparr> \<and>
   sent (snd (AuthProvider_signOut ev s w)) = sent w \<and>
   (\<not> store_throws ev (store_calls w) \<longrightarrow> token (snd (AuthProvider_signOut ev s w)) = None) \<and>
   (store_throws ev (store_calls w) \<longrightarrow> token (snd (AuthProvider_signOut ev s w)) = token w)"
  by (simp add: AuthProvider_signOut_def signOut_def clearSessionToken_token)

text \<open>Witness for C9: a working store, and a store whose every call throws.\<close>

theorem signOut_local_witness:
  "\<not> store_throws env_accepting (store_calls world0) \<and>
   AuthState.user (fst (AuthProvider_signOut env_accepting signed_in world0)) = None \<and>
   AuthState.sessionToken (fst (AuthProvider_signOut env_accepting signed_in world0)) = None \<and>
   token (snd (AuthProvider_signOut env_accepting signed_in world0)) = None \<and>
   store_throws env_store_broken (store_calls world0) \<and>
   AuthState.sessionToken (fst (AuthProvider_signOut env_store_broken signed_in world0)) = None \<and>
   token (snd (AuthProvider_signOut env_store_broken signed_in world0)) = Some ''old''"
proof -
  have a: "\<not> store_throws env_accepting (store_calls world0)"
    by (simp add: env_accepting_def reliable_def)
  have b: "store_throws env_store_broken (store_calls world0)"
    by (simp add: env_store_broken_def)
  have t: "token world0 = Some ''old''" by (simp add: world0_def)
  from signOut_local[of env_accepting signed_in world0]
       signOut_local[of env_store_broken signed_in world0] a b t
  show ?thesis by simp
qed

text \<open>
  Counterexample for C9 as stated: with a storage error while clearing, the stored token
  is still there after sign-out.
\<close>

theorem signOut_storage_error_keeps_token:
  "token (snd (AuthProvider_signOut env_store_broken signed_in world0)) = Some ''old''"
  by code_simp

lemma url_attach [simp]: "url (attach t config) = url config"
  by (simp add: attach_def split: option.splits)

lemma refresh_accepted:
  "refreshToken n env_refresh_accepted_rest_401 w = None \<or>
   (\<exists>w1. refreshToken n env_refresh_accepted_rest_401 w = Some (Inr auth_t1, w1) \<and>
         token w1 = Some ''t1'' \<and> \<not> store_throws env_refresh_accepted_rest_401 (store_calls w1))"
proof (cases n)
  case 0
  then show ?thesis by simp
next
  case (Suc k)
  show ?thesis
  proof (cases k)
    case 0
    with Suc show ?thesis by simp
  next
    case (Suc j)
    with \<open>n = Suc k\<close> show ?thesis
      by (simp add: env_refresh_accepted_rest_401_def getStoredSessionToken_def reliable_def
          refresh_request_def auth_ok_def unwrap_auth_def storeSessionToken_def auth_t1_def
          Let_def)
  qed
qed

lemma retried_without_bound:
  "(url config \<noteq> ''/auth/refresh'' \<longrightarrow>
      client_request n env_refresh_accepted_rest_401 config w = None) \<and>
   (status r = 401 \<and> url orig \<noteq> ''/auth/refresh'' \<longrightarrow>
      response_rejected n env_refresh_accepted_rest_401 (AxiosError m orig (Some r)) w = None)"
proof (induction n arbitrary: config w r orig m)
  case 0
  then show ?case by simp
next
  case (Suc n)
  have ih_c: "\<And>config w. url config \<noteq> ''/auth/refresh'' \<Longrightarrow>
                client_request n env_refresh_accepted_rest_401 config w = None"
    and ih_r: "\<And>r orig m w. status r = 401 \<Longrightarrow> url orig \<noteq> ''/auth/refresh'' \<Longrightarrow>
                response_rejected n env_refresh_accepted_rest_401 (AxiosError m orig (Some r)) w = None"
    using Suc.IH by blast+
  have c: "client_request (Suc n) env_refresh_accepted_rest_401 config w = None"
    if u: "url config \<noteq> ''/auth/refresh''"
  proof -
    obtain t w1 where g: "getStoredSessionToken env_refresh_accepted_rest_401 w = (t, w1)"
      by (cases "getStoredSessionToken env_refresh_accepted_rest_401 w")
    have s: "server env_refresh_accepted_rest_401 (length (sent w1)) (attach t config) =
               Respond (failed 401 ''INVALID_TOKEN'')"
      using u by (simp add: env_refresh_accepted_rest_401_def)
    have st: "status (failed 401 ''INVALID_TOKEN'') = 401" by (simp add: failed_def)
    show ?thesis
      using g s st ih_r[OF st, of "attach t config"] u
      by (simp add: Let_def)
  qed
  have rj: "response_rejected (Suc n) env_refresh_accepted_rest_401 (AxiosError m orig (Some r)) w = None"
    if st: "status r = 401" and u: "url orig \<noteq> ''/auth/refresh''"
  proof -
    from refresh_accepted[of n w] show ?thesis
    proof
      assume "refreshToken n env_refresh_accepted_rest_401 w = None"
      then show ?thesis using st by simp
    next
      assume "\<exists>w1. refreshToken n env_refresh_accepted_rest_401 w = Some (Inr auth_t1, w1) \<and>
         token w1 = Some ''t1'' \<and> \<not> store_throws env_refresh_accepted_rest_401 (store_calls w1)"
      then obtain w1 where f: "refreshToken n env_refresh_accepted_rest_401 w = Some (Inr auth_t1, w1)"
        and t: "token w1 = Some ''t1''"
        and ok: "\<not> store_throws env_refresh_accepted_rest_401 (store_calls w1)" by blast
      have g: "getStoredSessionToken env_refresh_accepted_rest_401 w1 =
                 (Some ''t1'', w1\<lparr>store_calls := Suc (store_calls w1)\<rparr>)"
        using t ok by (simp add: getStoredSessionToken_def)
      have "client_request n env_refresh_accepted_rest_401 (attach (Some ''t1'') orig)
              (w1\<lparr>store_calls := Suc (store_calls w1)\<rparr>) = None"
        using u by (intro ih_c) simp
      then show ?thesis using st f g by (simp add: usable_def)
    qed
  qed
  from c rj show ?case by blast
qed

text \<open>
  Claim C1 at failing inputs. \<open>GET /api/users/me\<close> is answered 401, the refresh is
  accepted, the resent request is answered 401 again, a second refresh is accepted and the
  third send is answered 200: the resend goes through the same interceptor, so the second
  401 starts a second refresh and a second resend, and the caller gets the 200 response
  instead of the second 401 error. And when every refresh is accepted while the request
  itself is always answered 401, the call has not returned at any nesting depth.
\<close>

theorem second_401_refreshes_again:
  "map_option fst (client_request 6 env_two_401 get_me world0) = Some (Inr other_ok) \<and>
   map_option (map url \<circ> sent \<circ> snd) (client_request 6 env_two_401 get_me world0) =
     Some [''/api/users/me'', ''/auth/refresh'', ''/api/users/me'', ''/auth/refresh'',
           ''/api/users/me''] \<and>
   (\<forall>n. client_request n env_refresh_accepted_rest_401 get_me world0 = None)"
proof -
  have a: "map_option fst (client_request 6 env_two_401 get_me world0) = Some (Inr other_ok)"
    by code_simp
  have b: "map_option (map url \<circ> sent \<circ> snd) (client_request 6 env_two_401 get_me world0) =
     Some [''/api/users/me'', ''/auth/refresh'', ''/api/users/me'', ''/auth/refresh'',
           ''/api/users/me'']"
    by code_simp
  have u: "url get_me \<noteq> ''/auth/refresh''" by (simp add: get_me_def)
  have c: "client_request n env_refresh_accepted_rest_401 get_me world0 = None" for n
    using retried_without_bound[of get_me n world0] u by blast
  from a b c show ?thesis by blast
qed

lemma always_401_never_returns:
  assumes "\<And>k req. \<exists>r. server ev k req = Respond r \<and> status r = 401"
  shows "client_request n ev config w = None \<and>
         (\<forall>m orig r. status r = 401 \<longrightarrow>
            response_rejected n ev (AxiosError m orig (Some r)) w = None) \<and>
         refreshToken n ev w = None"
proof (induction n arbitrary: config w)
  case 0
  then show ?case by simp
next
  case (Suc n)
  have c: "client_request (Suc n) ev config w = None"
  proof -
    obtain t w1 where g: "getStoredSessionToken ev w = (t, w1)" by (cases "getStoredSessionToken ev w")
    obtain r where r: "server ev (length (sent w1)) (attach t config) = Respond r" "status r = 401"
      using assms by blast
    show ?thesis using g r Suc.IH by (simp add: Let_def)
  qed
  have rj: "response_rejected (Suc n) ev (AxiosError m orig (Some r)) w = None"
    if "status r = 401" for m orig r
    using that Suc.IH by simp
  have rf: "refreshToken (Suc n) ev w = None"
    using Suc.IH by simp
  from c rj rf show ?case by blast
qed

text \<open>
  Claim C2 at failing inputs. The refresh call itself goes through the interceptor. When
  every request is answered 401, \<open>refreshToken\<close> (and \<open>AuthProvider.refreshToken\<close> on top of
  it) has not returned at any nesting depth: each 401 on a refresh call starts another
  refresh call. When the refresh call is answered 401 once and then accepted, the 401
  starts a second refresh call and a resend of the first: three refresh requests are
  sent, the token ends as \<open>t2\<close> and nothing is cleared.
\<close>

theorem refresh_401_starts_another_refresh:
  "(\<forall>n. refreshToken n env_all_401 world0 = None) \<and>
   (\<forall>n. AuthProvider_refreshToken n env_all_401 signed_in world0 = None) \<and>
   map_option (map url \<circ> sent \<circ> snd) (refreshToken 6 env_refresh_401_once world0) =
     Some [''/auth/refresh'', ''/auth/refresh'', ''/auth/refresh''] \<and>
   map_option (token \<circ> snd) (refreshToken 6 env_refresh_401_once world0) = Some (Some ''t2'')"
proof -
  have s: "\<And>k req. \<exists>r. server env_all_401 k req = Respond r \<and> status r = 401"
    by (simp add: env_all_401_def failed_def)
  have a: "refreshToken n env_all_401 world0 = None" for n
    using always_401_never_returns[OF s] by blast
  then have b: "AuthProvider_refreshToken n env_all_401 signed_in world0 = None" for n
    by (simp add: AuthProvider_refreshToken_def)
  have c: "map_option (map url \<circ> sent \<circ> snd) (refreshToken 6 env_refresh_401_once world0) =
     Some [''/auth/refresh'', ''/auth/refresh'', ''/auth/refresh'']"
    by code_simp
  have d: "map_option (token \<circ> snd) (refreshToken 6 env_refresh_401_once world0) = Some (Some ''t2'')"
    by code_simp
  from a b c d show ?thesis by blast
qed

section \<open>Numbers\<close>

lemma to_double_not_NaN: "to_double x \<noteq> NaN"
  by (simp add: to_double_def Let_def)

lemma to_double_safe_integer:
  "\<bar>n\<bar> \<le> 9007199254740992 \<Longrightarrow> to_double (of_int n) = Finite (of_int n)"
proof -
  assume "\<bar>n\<bar> \<le> 9007199254740992"
  then have "\<bar>(of_int n :: rat)\<bar> \<le> of_int 9007199254740992"
    unfolding of_int_abs[symmetric] by (subst of_int_le_iff) simp
  then show ?thesis by (simp add: to_double_def)
qed

text \<open>Beyond \<open>2^53\<close>, and on fractions, the subtraction rounds as the doubles do.\<close>

lemma decrement_rounds:
  "num_minus (Finite 9007199254740994) (Finite 1) = Finite 9007199254740992"
  "num_minus (Finite (5 / 2)) (Finite 1) = Finite (3 / 2)"
  by code_simp+

lemma minus_one_not_NaN: "c \<noteq> NaN \<Longrightarrow> num_minus c (Finite 1) \<noteq> NaN"
  by (cases c) (simp_all add: num_minus_def to_double_not_NaN)

lemma max_zero_nonneg: "y \<noteq> NaN \<Longrightarrow> nonneg (Math_max (Finite 0) y)"
  by (cases y) auto

lemma consume_nonneg:
  "nonneg c \<Longrightarrow> nonneg (Math_max (Finite 0) (num_minus c (Finite 1)))"
  by (rule max_zero_nonneg, rule minus_one_not_NaN) auto

lemma consume_safe_integer:
  assumes "0 \<le> n" and "n \<le> 9007199254740992"
  shows "Math_max (Finite 0) (num_minus (Finite (of_int n)) (Finite 1)) =
           Finite (of_int (max 0 (n - 1)))"
proof -
  have "\<bar>n - 1\<bar> \<le> 9007199254740992" using assms by simp
  then have "to_double (of_int (n - 1)) = Finite (of_int (n - 1))"
    by (rule to_double_safe_integer)
  then have "num_minus (Finite (of_int n)) (Finite 1) = Finite (of_int (n - 1))"
    by (simp add: num_minus_def)
  then show ?thesis by (simp add: max_def)
qed

section \<open>Credit state\<close>

text \<open>
  Claim C5 at a failing input: a state with 3 credits and a completed purchase of 8 credits,
  of the \<open>CreditPurchaseResponse\<close> shape. The reducer reads \<open>creditsAwarded\<close>, which that
  shape does not have (its field is \<open>creditsAdded\<close>), so the sum is \<open>3 + undefined\<close>: the
  new balance is \<open>NaN\<close>, not an integer \<open>\<ge> 0\<close>.
\<close>

theorem ADD_PURCHASE_photoCredits_NaN:
  "photoCredits (creditReducer (initialState\<lparr>photoCredits := Finite 3\<rparr>) (ADD_PURCHASE purchase_example)) = NaN \<and>
   \<not> nonneg (photoCredits (creditReducer (initialState\<lparr>photoCredits := Finite 3\<rparr>) (ADD_PURCHASE purchase_example)))"
  by (simp add: creditsAwarded_undefined)

lemma ADD_PURCHASE_always_NaN: "photoCredits (creditReducer s (ADD_PURCHASE p)) = NaN"
  by (simp add: creditsAwarded_undefined)

text \<open>The six other actions keep a balance that is a number \<open>\<ge> 0\<close>, \<open>SET_BALANCE\<close> when it
  is given one.\<close>

lemma creditReducer_keeps_nonneg:
  assumes "nonneg (photoCredits s)"
    and "\<And>c t. act = SET_BALANCE c t \<Longrightarrow> nonneg c"
    and "\<And>p. act \<noteq> ADD_PURCHASE p"
  shows "nonneg (photoCredits (creditReducer s act))"
  using assms by (cases act) (auto simp: consume_nonneg)

lemma dispatch_never_negative:
  assumes "never_negative a" and "nonneg (photoCredits (creditReducer (credit a) act))"
  shows "never_negative (dispatch act a)"
  using assms by (simp add: never_negative_def dispatch_def Let_def)

lemma consumeCredit_never_negative:
  "never_negative a \<Longrightarrow> never_negative (consumeCredit a)"
  unfolding consumeCredit_def
  by (rule dispatch_never_negative) (simp_all add: never_negative_def consume_nonneg)

lemma dispatch_calls [simp]: "calls (dispatch act a) = calls a"
  by (simp add: dispatch_def Let_def)

lemma dispatch_hook [simp]: "hook (dispatch act a) = hook a"
  by (simp add: dispatch_def Let_def)

lemma dispatch_credit [simp]: "credit (dispatch act a) = creditReducer (credit a) act"
  by (simp add: dispatch_def Let_def)

lemma never_negative_calls [simp]: "never_negative (a\<lparr>calls := cs\<rparr>) = never_negative a"
  by (simp add: never_negative_def)

lemma refreshBalance_never_negative:
  assumes "never_negative a"
    and "\<And>r. reply = Some (Inr r) \<Longrightarrow> nonneg (CreditBalanceResponse.photoCredits r)"
  shows "never_negative (snd (refreshBalance reply a))"
proof -
  let ?a1 = "dispatch (SET_LOADING True) a"
  have n1: "never_negative ?a1"
    using assms(1) by (intro dispatch_never_negative) (simp_all add: never_negative_def)
  let ?a2 = "?a1\<lparr>calls := calls ?a1 @ [Call_getCreditBalance]\<rparr>"
  have n2: "never_negative ?a2" using n1 by simp
  show ?thesis
  proof (cases reply)
    case None
    then show ?thesis using n2 by (simp add: refreshBalance_def Let_def)
  next
    case (Some settled)
    show ?thesis
    proof (cases settled)
      case (Inl e)
      have "never_negative (dispatch (SET_ERROR (error_message e)) ?a2)"
        using n2 by (intro dispatch_never_negative) (simp_all add: never_negative_def)
      then show ?thesis using Inl Some by (simp add: refreshBalance_def Let_def)
    next
      case (Inr r)
      have "nonneg (CreditBalanceResponse.photoCredits r)" using assms(2) Some Inr by simp
      then have "never_negative (dispatch (SET_BALANCE (CreditBalanceResponse.photoCredits r)
              (CreditBalanceResponse.subscriptionTier r)) ?a2)"
        using n2 by (intro dispatch_never_negative) simp_all
      then show ?thesis using Inr Some by (simp add: refreshBalance_def Let_def)
    qed
  qed
qed

lemma run_cycle_never_negative:
  "never_negative a \<Longrightarrow>
   (\<forall>r. Resync (Some (Inr r)) \<in> set evs \<longrightarrow> nonneg (CreditBalanceResponse.photoCredits r)) \<Longrightarrow>
   never_negative (foldl cycle_step a evs)"
proof (induction evs arbitrary: a)
  case Nil
  then show ?case by simp
next
  case (Cons ev evs)
  have "never_negative (cycle_step a ev)"
  proof (cases ev)
    case Decrement
    then show ?thesis using Cons.prems(1) by (simp add: consumeCredit_never_negative)
  next
    case (Resync reply)
    then show ?thesis using Cons.prems by (auto intro: refreshBalance_never_negative)
  qed
  then show ?case using Cons.IH Cons.prems(2) by simp
qed

text \<open>
  Claim C3, as amended. Start from any application state whose balance is a number
  \<open>\<ge> 0\<close> (and whose earlier credit states were). Run any sequence of optimistic decrements
  and resyncs in which every balance the server returns is itself a number \<open>\<ge> 0\<close>; a
  resync may also fail or never be answered. Then every credit state produced on the
  way, and the final one, has a balance that is a number \<open>\<ge> 0\<close>. The decrement replaces the
  balance by \<open>Math.max(0, balance - 1)\<close> in double arithmetic, which for an integer balance
  \<open>n\<close> with \<open>0 \<le> n \<le> 2^53\<close> is \<open>max 0 (n - 1)\<close>; a resync that the server answers overwrites
  the balance with the server's value, whatever it is.
\<close>

theorem photoCredits_never_negative:
  assumes "never_negative a"
    and "\<forall>r. Resync (Some (Inr r)) \<in> set evs \<longrightarrow> nonneg (CreditBalanceResponse.photoCredits r)"
  shows "never_negative (run_cycle a evs) \<and>
         photoCredits (credit (consumeCredit a)) =
           Math_max (Finite 0) (num_minus (photoCredits (credit a)) (Finite 1)) \<and>
         (\<forall>n. photoCredits (credit a) = Finite (of_int n) \<and> 0 \<le> n \<and> n \<le> 9007199254740992 \<longrightarrow>
              photoCredits (credit (consumeCredit a)) = Finite (of_int (max 0 (n - 1)))) \<and>
         (\<forall>r. photoCredits (credit (snd (refreshBalance (Some (Inr r)) a))) =
              CreditBalanceResponse.photoCredits r)"
proof -
  have a: "never_negative (run_cycle a evs)"
    using run_cycle_never_negative[OF assms] by (simp add: run_cycle_def)
  have b: "photoCredits (credit (consumeCredit a)) =
           Math_max (Finite 0) (num_minus (photoCredits (credit a)) (Finite 1))"
    by (simp add: consumeCredit_def)
  have c: "photoCredits (credit (consumeCredit a)) = Finite (of_int (max 0 (n - 1)))"
    if "photoCredits (credit a) = Finite (of_int n)" and "0 \<le> n" and "n \<le> 9007199254740992" for n
    using that consume_safe_integer[of n] by (simp add: b)
  have d: "photoCredits (credit (snd (refreshBalance (Some (Inr r)) a))) =
              CreditBalanceResponse.photoCredits r" for r
    by (simp add: refreshBalance_def Let_def)
  from a b c d show ?thesis by blast
qed

text \<open>Witness for C3: balance 1, then decrement, decrement, resync to 5, a failed resync,
  decrement.\<close>

theorem photoCredits_never_negative_witness:
  "never_negative (app_with 1 None) \<and>
   never_negative (run_cycle (app_with 1 None) cycle_example) \<and>
   map photoCredits (history (run_cycle (app_with 1 None) cycle_example)) =
     [Finite 0, Finite 0, Finite 0, Finite 5, Finite 5, Finite 5, Finite 4] \<and>
   photoCredits (credit (run_cycle (app_with 1 None) cycle_example)) = Finite 4"
proof -
  have a: "never_negative (app_with 1 None)"
    by (simp add: never_negative_def app_with_def initialState_def)
  have b: "\<forall>r. Resync (Some (Inr r)) \<in> set cycle_example \<longrightarrow>
             nonneg (CreditBalanceResponse.photoCredits r)"
    by (simp add: cycle_example_def balance_five_def)
  have c: "map photoCredits (history (run_cycle (app_with 1 None) cycle_example)) =
     [Finite 0, Finite 0, Finite 0, Finite 5, Finite 5, Finite 5, Finite 4]"
    by (simp add: run_cycle_def cycle_example_def app_with_def initialState_def balance_five_def
        consumeCredit_def refreshBalance_def dispatch_def Let_def num_minus_def to_double_def)
  have d: "photoCredits (credit (run_cycle (app_with 1 None) cycle_example)) = Finite 4"
    by (simp add: run_cycle_def cycle_example_def app_with_def initialState_def balance_five_def
        consumeCredit_def refreshBalance_def dispatch_def Let_def num_minus_def to_double_def)
  from photoCredits_never_negative[OF a b] a c d show ?thesis by simp
qed

text \<open>
  Counterexample for C3 as stated: from balance 1, a decrement and then a resync that the
  server answers with \<open>-4\<close>. \<open>SET_BALANCE\<close> stores the server's value unchecked, so the
  balance is \<open>-4\<close>.
\<close>

theorem negative_server_balance_is_stored:
  "never_negative (app_with 1 None) \<and>
   photoCredits (credit (run_cycle (app_with 1 None)
                           [Decrement, Resync (Some (Inr balance_negative))])) = Finite (- 4) \<and>
   \<not> never_negative (run_cycle (app_with 1 None)
                           [Decrement, Resync (Some (Inr balance_negative))])"
  by (simp add: never_negative_def run_cycle_def app_with_def initialState_def balance_negative_def
      consumeCredit_def refreshBalance_def dispatch_def Let_def num_minus_def to_double_def)

section \<open>The photo-transform hook\<close>

lemma refreshBalance_calls:
  "calls (snd (refreshBalance reply a)) = calls a @ [Call_getCreditBalance]"
  by (cases reply) (auto simp: refreshBalance_def Let_def split: sum.splits)

lemma refreshBalance_answered:
  "refreshBalance (Some (Inr r)) a = (returned, a') \<Longrightarrow>
     returned \<and>
     credit a' = (credit a)\<lparr>photoCredits := CreditBalanceResponse.photoCredits r,
                          subscriptionTier := CreditBalanceResponse.subscriptionTier r,
                          isLoading := False, CreditState.error := None\<rparr>"
  by (auto simp: refreshBalance_def Let_def)

lemma refreshBalance_failed:
  "refreshBalance (Some (Inl e)) a = (returned, a') \<Longrightarrow>
     returned \<and>
     credit a' = (credit a)\<lparr>isLoading := False, CreditState.error := Some (error_message e)\<rparr>"
  by (auto simp: refreshBalance_def Let_def)

lemma refreshBalance_unanswered:
  "refreshBalance None a = (returned, a') \<Longrightarrow>
     \<not> returned \<and> credit a' = (credit a)\<lparr>isLoading := True, CreditState.error := None\<rparr>"
  by (auto simp: refreshBalance_def Let_def)

text \<open>A request of the hook's API call that is answered 401 every time never settles.\<close>

lemma transform_request_never_settles:
  "client_request n env_all_401 transform_request w = None"
proof -
  have s: "\<And>k req. \<exists>r. server env_all_401 k req = Respond r \<and> status r = 401"
    by (simp add: env_all_401_def failed_def)
  show ?thesis using always_401_never_returns[OF s] by blast
qed

lemma transformPhoto_rejected:
  assumes "currentImage (hook a) = None \<or> currentImage (hook a) = Some [] \<or> \<not> checkCredits a"
  shows "\<exists>m. transformPhoto tr br bg prompt a = reject m a"
  using assms by (auto simp: transformPhoto_def split: option.splits)

text \<open>
  Claim C4, as amended. A \<open>transformPhoto\<close> call rejected locally (no image selected, or
  a local balance below 1) issues no balance fetch and leaves the credit state alone. A
  call that gets past the local checks decrements the balance optimistically and calls
  \<open>apiService.transformPhoto\<close> once. If that call never settles, no balance fetch is
  issued and the hook call does not return. Once it settles, whatever its outcome (a
  result or any thrown error, a timeout included), \<open>getCreditBalance\<close> is called exactly
  once. If the fetch is answered, the balance afterwards is the server's value and the
  credit state carries no error. If the fetch fails, the balance afterwards is the
  optimistic value \<open>Math.max(0, balance - 1)\<close> and the credit state carries the error
  message. If the fetch is never answered, the balance stays at the optimistic value and
  the hook call does not return.
\<close>

theorem transformPhoto_resync:
  "((currentImage (hook a) = None \<or> currentImage (hook a) = Some [] \<or> \<not> checkCredits a) \<longrightarrow>
      calls (snd (transformPhoto tr br bg prompt a)) = calls a \<and>
      credit (snd (transformPhoto tr br bg prompt a)) = credit a \<and>
      history (snd (transformPhoto tr br bg prompt a)) = history a \<and>
      (\<exists>m. fst (transformPhoto tr br bg prompt a) =
             Some \<lparr>success = False, result = None, error = Some m\<rparr>)) \<and>
   (currentImage (hook a) = Some uri \<and> uri \<noteq> [] \<and> checkCredits a \<longrightarrow>
      (tr = None \<longrightarrow>
         fst (transformPhoto tr br bg prompt a) = None \<and>
         calls (snd (transformPhoto tr br bg prompt a)) =
           calls a @ [Call_transformPhoto uri bg prompt] \<and>
         photoCredits (credit (snd (transformPhoto tr br bg prompt a))) =
           Math_max (Finite 0) (num_minus (photoCredits (credit a)) (Finite 1))) \<and>
      (tr \<noteq> None \<longrightarrow>
         calls (snd (transformPhoto tr br bg prompt a)) =
           calls a @ [Call_transformPhoto uri bg prompt, Call_getCreditBalance] \<and>
         (\<forall>r. br = Some (Inr r) \<longrightarrow>
            fst (transformPhoto tr br bg prompt a) \<noteq> None \<and>
            photoCredits (credit (snd (transformPhoto tr br bg prompt a))) =
              CreditBalanceResponse.photoCredits r \<and>
            CreditState.error (credit (snd (transformPhoto tr br bg prompt a))) = None) \<and>
         (\<forall>e. br = Some (Inl e) \<longrightarrow>
            fst (transformPhoto tr br bg prompt a) \<noteq> None \<and>
            photoCredits (credit (snd (transformPhoto tr br bg prompt a))) =
              Math_max (Finite 0) (num_minus (photoCredits (credit a)) (Finite 1)) \<and>
            CreditState.error (credit (snd (transformPhoto tr br bg prompt a))) =
              Some (error_message e)) \<and>
         (br = None \<longrightarrow>
            fst (transformPhoto tr br bg prompt a) = None \<and>
            photoCredits (credit (snd (transformPhoto tr br bg prompt a))) =
              Math_max (Finite 0) (num_minus (photoCredits (credit a)) (Finite 1)))))"
proof (intro conjI impI)
  assume r: "currentImage (hook a) = None \<or> currentImage (hook a) = Some [] \<or> \<not> checkCredits a"
  then obtain m where m: "transformPhoto tr br bg prompt a = reject m a"
    using transformPhoto_rejected by blast
  show "calls (snd (transformPhoto tr br bg prompt a)) = calls a"
    and "credit (snd (transformPhoto tr br bg prompt a)) = credit a"
    and "history (snd (transformPhoto tr br bg prompt a)) = history a"
    and "\<exists>m. fst (transformPhoto tr br bg prompt a) =
             Some \<lparr>success = False, result = None, error = Some m\<rparr>"
    by (simp_all add: m reject_def)
next
  assume h: "currentImage (hook a) = Some uri \<and> uri \<noteq> [] \<and> checkCredits a"
  assume n: "tr = None"
  show "fst (transformPhoto tr br bg prompt a) = None"
    and "calls (snd (transformPhoto tr br bg prompt a)) = calls a @ [Call_transformPhoto uri bg prompt]"
    and "photoCredits (credit (snd (transformPhoto tr br bg prompt a))) =
           Math_max (Finite 0) (num_minus (photoCredits (credit a)) (Finite 1))"
    using h n by (simp_all add: transformPhoto_def consumeCredit_def Let_def)
next
  assume h: "currentImage (hook a) = Some uri \<and> uri \<noteq> [] \<and> checkCredits a"
  assume n: "tr \<noteq> None"
  then obtain settled where s: "tr = Some settled" by blast
  show "calls (snd (transformPhoto tr br bg prompt a)) =
           calls a @ [Call_transformPhoto uri bg prompt, Call_getCreditBalance]"
    using h s refreshBalance_calls
    by (cases settled)
       (auto simp: transformPhoto_def consumeCredit_def Let_def split: prod.splits
             dest!: arg_cong[where f = snd])
  show "\<forall>r. br = Some (Inr r) \<longrightarrow>
            fst (transformPhoto tr br bg prompt a) \<noteq> None \<and>
            photoCredits (credit (snd (transformPhoto tr br bg prompt a))) =
              CreditBalanceResponse.photoCredits r \<and>
            CreditState.error (credit (snd (transformPhoto tr br bg prompt a))) = None"
    using h s
    by (cases settled)
       (auto simp: transformPhoto_def consumeCredit_def Let_def split: prod.splits
             dest!: refreshBalance_answered)
  show "\<forall>e. br = Some (Inl e) \<longrightarrow>
            fst (transformPhoto tr br bg prompt a) \<noteq> None \<and>
            photoCredits (credit (snd (transformPhoto tr br bg prompt a))) =
              Math_max (Finite 0) (num_minus (photoCredits (credit a)) (Finite 1)) \<and>
            CreditState.error (credit (snd (transformPhoto tr br bg prompt a))) =
              Some (error_message e)"
    using h s
    by (cases settled)
       (auto simp: transformPhoto_def consumeCredit_def Let_def split: prod.splits
             dest!: refreshBalance_failed)
next
  assume h: "currentImage (hook a) = Some uri \<and> uri \<noteq> [] \<and> checkCredits a"
  assume n: "tr \<noteq> None" and b: "br = None"
  then obtain settled where s: "tr = Some settled" by blast
  show "fst (transformPhoto tr br bg prompt a) = None"
    and "photoCredits (credit (snd (transformPhoto tr br bg prompt a))) =
              Math_max (Finite 0) (num_minus (photoCredits (credit a)) (Finite 1))"
    using h s b
    by (cases settled;
        auto simp: transformPhoto_def consumeCredit_def Let_def split: prod.splits
             dest!: refreshBalance_unanswered)+
qed

text \<open>Witness for C4: balance 1, the transform succeeds using 1 credit and the resync
  returns balance 0; the same call when the transform never settles; and a call with
  balance 0.\<close>

theorem transformPhoto_resync_witness:
  "currentImage (hook (app_with 1 (Some photo_uri))) = Some photo_uri \<and> photo_uri \<noteq> [] \<and>
   checkCredits (app_with 1 (Some photo_uri)) \<and>
   calls (snd (transformPhoto (Some (Inr transform_ok)) (Some (Inr balance_zero)) Cartoon None
                 (app_with 1 (Some photo_uri)))) =
     [Call_transformPhoto photo_uri Cartoon None, Call_getCreditBalance] \<and>
   photoCredits (credit (snd (transformPhoto (Some (Inr transform_ok)) (Some (Inr balance_zero))
                 Cartoon None (app_with 1 (Some photo_uri))))) = Finite 0 \<and>
   CreditState.error (credit (snd (transformPhoto (Some (Inr transform_ok)) (Some (Inr balance_zero))
                 Cartoon None (app_with 1 (Some photo_uri))))) = None \<and>
   fst (transformPhoto None None Cartoon None (app_with 1 (Some photo_uri))) = None \<and>
   calls (snd (transformPhoto None None Cartoon None (app_with 1 (Some photo_uri)))) =
     [Call_transformPhoto photo_uri Cartoon None] \<and>
   \<not> checkCredits (app_with 0 (Some photo_uri)) \<and>
   calls (snd (transformPhoto (Some (Inr transform_ok)) (Some (Inr balance_zero)) Cartoon None
                 (app_with 0 (Some photo_uri)))) = []"
proof -
  have h: "currentImage (hook (app_with 1 (Some photo_uri))) = Some photo_uri"
    "photo_uri \<noteq> []" "checkCredits (app_with 1 (Some photo_uri))"
    by (simp_all add: app_with_def photo_uri_def checkCredits_def initialState_def num_ge_def)
  have k: "\<not> checkCredits (app_with 0 (Some photo_uri))"
    by (simp add: app_with_def checkCredits_def initialState_def num_ge_def)
  have z: "CreditBalanceResponse.photoCredits balance_zero = Finite 0"
    by (simp add: balance_zero_def)
  have e: "calls (app_with 1 (Some photo_uri)) = []" "calls (app_with 0 (Some photo_uri)) = []"
    by (simp_all add: app_with_def)
  note t1 = transformPhoto_resync[of "app_with 1 (Some photo_uri)" "Some (Inr transform_ok)"
      "Some (Inr balance_zero)" Cartoon None photo_uri]
  note t2 = transformPhoto_resync[of "app_with 1 (Some photo_uri)" None None Cartoon None photo_uri]
  note t3 = transformPhoto_resync[of "app_with 0 (Some photo_uri)" "Some (Inr transform_ok)"
      "Some (Inr balance_zero)" Cartoon None photo_uri]
  from t1 h z e have a: "calls (snd (transformPhoto (Some (Inr transform_ok)) (Some (Inr balance_zero))
        Cartoon None (app_with 1 (Some photo_uri)))) =
        [Call_transformPhoto photo_uri Cartoon None, Call_getCreditBalance]"
    and b: "photoCredits (credit (snd (transformPhoto (Some (Inr transform_ok))
        (Some (Inr balance_zero)) Cartoon None (app_with 1 (Some photo_uri))))) = Finite 0"
    and c: "CreditState.error (credit (snd (transformPhoto (Some (Inr transform_ok))
        (Some (Inr balance_zero)) Cartoon None (app_with 1 (Some photo_uri))))) = None"
    by simp_all
  from t2 h e have d: "fst (transformPhoto None None Cartoon None (app_with 1 (Some photo_uri))) = None"
    and f: "calls (snd (transformPhoto None None Cartoon None (app_with 1 (Some photo_uri)))) =
        [Call_transformPhoto photo_uri Cartoon None]"
    by simp_all
  from t3 k e have g: "calls (snd (transformPhoto (Some (Inr transform_ok)) (Some (Inr balance_zero))
        Cartoon None (app_with 0 (Some photo_uri)))) = []"
    by simp
  from h a b c d f k g show ?thesis by blast
qed

text \<open>
  Counterexample for C4 as stated. With balance 0 the call fails without any balance
  fetch. With balance 3, a transform that times out and a balance fetch that fails too,
  one fetch is issued, no server value arrives, and the balance stays at the optimistic 2.
  With balance 3 and a transform call that never settles, no fetch is issued.
\<close>

theorem transformPhoto_without_resync:
  "calls (snd (transformPhoto (Some (Inl timeout_error)) (Some (Inr balance_five)) Cartoon None
                 (app_with 0 (Some photo_uri)))) = [] \<and>
   calls (snd (transformPhoto (Some (Inl timeout_error)) (Some (Inl timeout_error)) Cartoon None
                 (app_with 3 (Some photo_uri)))) =
     [Call_transformPhoto photo_uri Cartoon None, Call_getCreditBalance] \<and>
   photoCredits (credit (snd (transformPhoto (Some (Inl timeout_error)) (Some (Inl timeout_error))
                 Cartoon None (app_with 3 (Some photo_uri))))) = Finite 2 \<and>
   calls (snd (transformPhoto None (Some (Inr balance_five)) Cartoon None
                 (app_with 3 (Some photo_uri)))) = [Call_transformPhoto photo_uri Cartoon None]"
  by (simp add: transformPhoto_def app_with_def photo_uri_def checkCredits_def initialState_def
      reject_def consumeCredit_def refreshBalance_def dispatch_def Let_def num_ge_def
      num_minus_def to_double_def)

text \<open>
  Claim C7, as amended. With an image selected and a local balance of 0 (or below),
  \<open>transformPhoto\<close> returns \<open>{success: false, error: "Insufficient credits. Please
  purchase more credits to continue."}\<close>, a message and nothing else, records that message
  in the hook state, calls nothing on the API service and leaves the credit state alone.
  With no image selected it returns the no-image message in the same way, whatever the
  balance.
\<close>

theorem transformPhoto_insufficient:
  "(currentImage (hook a) = Some uri \<and> uri \<noteq> [] \<and>
    photoCredits (credit a) = Finite b \<and> b \<le> 0 \<longrightarrow>
      transformPhoto tr br bg prompt a =
        (Some \<lparr>success = False, result = None, error = Some insufficient_message\<rparr>,
         a\<lparr>hook := (hook a)\<lparr>TransformState.error := Some insufficient_message\<rparr>\<rparr>) \<and>
      calls (snd (transformPhoto tr br bg prompt a)) = calls a \<and>
      credit (snd (transformPhoto tr br bg prompt a)) = credit a) \<and>
   (currentImage (hook a) = None \<or> currentImage (hook a) = Some [] \<longrightarrow>
      transformPhoto tr br bg prompt a =
        (Some \<lparr>success = False, result = None, error = Some no_image_message\<rparr>,
         a\<lparr>hook := (hook a)\<lparr>TransformState.error := Some no_image_message\<rparr>\<rparr>) \<and>
      calls (snd (transformPhoto tr br bg prompt a)) = calls a \<and>
      credit (snd (transformPhoto tr br bg prompt a)) = credit a)"
  by (auto simp: transformPhoto_def checkCredits_def reject_def num_ge_def)

text \<open>Witness for C7: balance 0 with an image selected, and balance 5 with none.\<close>

theorem transformPhoto_insufficient_witness:
  "currentImage (hook (app_with 0 (Some photo_uri))) = Some photo_uri \<and> photo_uri \<noteq> [] \<and>
   photoCredits (credit (app_with 0 (Some photo_uri))) = Finite 0 \<and>
   fst (transformPhoto (Some (Inr transform_ok)) (Some (Inr balance_zero)) Lego None
          (app_with 0 (Some photo_uri))) =
     Some \<lparr>success = False, result = None,
           error = Some ''Insufficient credits. Please purchase more credits to continue.''\<rparr> \<and>
   calls (snd (transformPhoto (Some (Inr transform_ok)) (Some (Inr balance_zero)) Lego None
                 (app_with 0 (Some photo_uri)))) = [] \<and>
   currentImage (hook (app_with 5 None)) = None \<and>
   fst (transformPhoto (Some (Inr transform_ok)) (Some (Inr balance_zero)) Lego None
          (app_with 5 None)) =
     Some \<lparr>success = False, result = None,
           error = Some ''No image selected. Please take or select a photo first.''\<rparr>"
proof -
  have h: "currentImage (hook (app_with 0 (Some photo_uri))) = Some photo_uri"
    "photo_uri \<noteq> []" "photoCredits (credit (app_with 0 (Some photo_uri))) = Finite 0"
    by (simp_all add: app_with_def photo_uri_def initialState_def)
  have n: "currentImage (hook (app_with 5 None)) = None" by (simp add: app_with_def)
  have e: "calls (app_with 0 (Some photo_uri)) = []" by (simp add: app_with_def)
  note t1 = transformPhoto_insufficient[of "app_with 0 (Some photo_uri)" photo_uri 0
      "Some (Inr transform_ok)" "Some (Inr balance_zero)" Lego None]
  note t2 = transformPhoto_insufficient[of "app_with 5 None" photo_uri 0
      "Some (Inr transform_ok)" "Some (Inr balance_zero)" Lego None]
  from t1 h e have a: "fst (transformPhoto (Some (Inr transform_ok)) (Some (Inr balance_zero)) Lego None
          (app_with 0 (Some photo_uri))) =
     Some \<lparr>success = False, result = None,
           error = Some ''Insufficient credits. Please purchase more credits to continue.''\<rparr>"
    and b: "calls (snd (transformPhoto (Some (Inr transform_ok)) (Some (Inr balance_zero)) Lego None
                 (app_with 0 (Some photo_uri)))) = []"
    by (simp_all add: insufficient_message_def)
  from t2 n have c: "fst (transformPhoto (Some (Inr transform_ok)) (Some (Inr balance_zero)) Lego None
          (app_with 5 None)) =
     Some \<lparr>success = False, result = None,
           error = Some ''No image selected. Please take or select a photo first.''\<rparr>"
    by (simp add: no_image_message_def)
  from h n a b c show ?thesis by blast
qed

text \<open>
  Counterexample for C7 as stated. With balance 0 and no image selected the call is
  rejected for the missing image, not for the credits; with an image selected the value
  returned is the record below: a success flag and a message, with no required or
  available count.
\<close>

theorem transformPhoto_zero_balance_no_image:
  "fst (transformPhoto (Some (Inr transform_ok)) (Some (Inr balance_zero)) Lego None
          (app_with 0 None)) =
     Some \<lparr>success = False, result = None,
           error = Some ''No image selected. Please take or select a photo first.''\<rparr> \<and>
   fst (transformPhoto (Some (Inr transform_ok)) (Some (Inr balance_zero)) Lego None
          (app_with 0 (Some photo_uri))) =
     Some \<lparr>success = False, result = None,
           error = Some ''Insufficient credits. Please purchase more credits to continue.''\<rparr>"
  by (simp add: transformPhoto_def app_with_def photo_uri_def checkCredits_def initialState_def
      reject_def no_image_message_def insufficient_message_def num_ge_def)


end
